theory Spec2Isabelle
  imports Main "HOL-Library.Monad_Syntax"
begin

section \<open>The XGBoost JSON frontend of treelite (src/frontend/xgboost_json.cc)\<close>

text \<open>
  The frontend is a stack of SAX handlers driven by a JSON tokenizer. Each handler method
  returns \<^verbatim>\<open>bool\<close>; \<^verbatim>\<open>false\<close> rejects the event and ends the parse. In the
  embedding a method returns \<open>error + state\<close>: \<open>Inr\<close> is \<^verbatim>\<open>true\<close> with the state after
  the call, \<open>Inl\<close> is a run that produces no state.
\<close>

datatype error =
    Rejected "string list"
      \<comment> \<open>the handler returned \<^verbatim>\<open>false\<close>; the lines it wrote with \<^verbatim>\<open>LOG(ERROR)\<close> before\<close>
  | UndefinedBehaviour
      \<comment> \<open>\<^verbatim>\<open>operator[]\<close> outside a vector, or \<^verbatim>\<open>top()\<close> of an empty stack\<close>
  | Nontermination
      \<comment> \<open>the work queue of the tree reconstruction never empties\<close>
  | Fatal "string list"
      \<comment> \<open>\<^verbatim>\<open>LOG(FATAL)\<close> of \<^verbatim>\<open>ParseStream\<close>: the load is aborted, with the lines logged\<close>

text \<open>
  \<^verbatim>\<open>v[i]\<close> on a \<^verbatim>\<open>std::vector\<close> with an \<^verbatim>\<open>int\<close> index: defined inside the vector only.
  A negative index converts to a huge \<^verbatim>\<open>size_t\<close>, which is outside as well.
\<close>

definition vector_at :: "'a list \<Rightarrow> int \<Rightarrow> 'a option" where
  "vector_at v i = (if 0 \<le> i \<and> i < int (length v) then Some (v ! nat i) else None)"

subsection \<open>The output tree container\<close>

text \<open>
  Modelled from the spec: the tree container \<^verbatim>\<open>treelite::Tree<float, float>\<close> is declared in
  \<^verbatim>\<open>treelite/tree.h\<close>, which is not among the sources. The spec gives it node allocation
  and node mutation (add children, mark leaf, set split, set gain, set sum-of-statistics)
  and its own space of node IDs. Here the IDs are the positions in the node array, a new
  node takes the next free position, and \<open>-1\<close> stands for "no child". Type \<open>'d\<close> is
  \<^verbatim>\<open>double\<close> and \<open>'f\<close> is \<^verbatim>\<open>float\<close>.
\<close>

datatype Operator = kNone | kEQ | kLT | kLE | kGT | kGE

datatype 'f NodeInfo = no_info | leaf_value 'f | threshold 'f

record ('d, 'f) Node =
  cleft :: int
  cright :: int
  sindex :: int
  default_left_flag :: bool
  info :: "'f NodeInfo"
  cmp :: Operator
  gain :: "'d option"
  sum_hess :: "'d option"

record ('d, 'f) Tree =
  nodes :: "('d, 'f) Node list"

definition Node_Init :: "('d, 'f) Node" where
  "Node_Init = \<lparr>cleft = -1, cright = -1, sindex = 0, default_left_flag = False,
     info = no_info, cmp = kNone, gain = None, sum_hess = None\<rparr>"

definition Tree_Init :: "('d, 'f) Tree" where
  "Tree_Init = \<lparr>nodes = [Node_Init]\<rparr>"

definition update_node ::
  "int \<Rightarrow> (('d, 'f) Node \<Rightarrow> ('d, 'f) Node) \<Rightarrow> ('d, 'f) Tree \<Rightarrow> ('d, 'f) Tree" where
  "update_node nid f t = t\<lparr>nodes := (nodes t)[nat nid := f (nodes t ! nat nid)]\<rparr>"

definition AddChilds :: "int \<Rightarrow> ('d, 'f) Tree \<Rightarrow> ('d, 'f) Tree" where
  "AddChilds nid t =
     (let cl = int (length (nodes t));
          cr = cl + 1;
          t' = t\<lparr>nodes := nodes t @ [Node_Init, Node_Init]\<rparr>
      in update_node nid (\<lambda>n. n\<lparr>cleft := cl, cright := cr\<rparr>) t')"

definition SetLeaf :: "int \<Rightarrow> 'f \<Rightarrow> ('d, 'f) Tree \<Rightarrow> ('d, 'f) Tree" where
  "SetLeaf nid v = update_node nid (\<lambda>n. n\<lparr>info := leaf_value v, cleft := -1, cright := -1\<rparr>)"

definition SetNumericalSplit ::
  "int \<Rightarrow> int \<Rightarrow> 'f \<Rightarrow> bool \<Rightarrow> Operator \<Rightarrow> ('d, 'f) Tree \<Rightarrow> ('d, 'f) Tree" where
  "SetNumericalSplit nid split_index thr dleft op =
     update_node nid
       (\<lambda>n. n\<lparr>sindex := split_index, default_left_flag := dleft, info := threshold thr,
          cmp := op\<rparr>)"

definition SetGain :: "int \<Rightarrow> 'd \<Rightarrow> ('d, 'f) Tree \<Rightarrow> ('d, 'f) Tree" where
  "SetGain nid g = update_node nid (\<lambda>n. n\<lparr>gain := Some g\<rparr>)"

definition SetSumHess :: "int \<Rightarrow> 'd \<Rightarrow> ('d, 'f) Tree \<Rightarrow> ('d, 'f) Tree" where
  "SetSumHess nid s = update_node nid (\<lambda>n. n\<lparr>sum_hess := Some s\<rparr>)"

definition node_at :: "('d, 'f) Tree \<Rightarrow> int \<Rightarrow> ('d, 'f) Node" where
  "node_at t nid = nodes t ! nat nid"

definition LeftChild :: "('d, 'f) Tree \<Rightarrow> int \<Rightarrow> int" where
  "LeftChild t nid = cleft (node_at t nid)"

definition RightChild :: "('d, 'f) Tree \<Rightarrow> int \<Rightarrow> int" where
  "RightChild t nid = cright (node_at t nid)"

definition IsLeaf :: "('d, 'f) Tree \<Rightarrow> int \<Rightarrow> bool" where
  "IsLeaf t nid = (cleft (node_at t nid) = -1)"

definition LeafValue :: "('d, 'f) Tree \<Rightarrow> int \<Rightarrow> 'f option" where
  "LeafValue t nid = (case info (node_at t nid) of leaf_value v \<Rightarrow> Some v | _ \<Rightarrow> None)"

definition Threshold :: "('d, 'f) Tree \<Rightarrow> int \<Rightarrow> 'f option" where
  "Threshold t nid = (case info (node_at t nid) of threshold v \<Rightarrow> Some v | _ \<Rightarrow> None)"

definition SplitIndex :: "('d, 'f) Tree \<Rightarrow> int \<Rightarrow> int" where
  "SplitIndex t nid = sindex (node_at t nid)"

definition DefaultLeft :: "('d, 'f) Tree \<Rightarrow> int \<Rightarrow> bool" where
  "DefaultLeft t nid = default_left_flag (node_at t nid)"

definition ComparisonOp :: "('d, 'f) Tree \<Rightarrow> int \<Rightarrow> Operator" where
  "ComparisonOp t nid = cmp (node_at t nid)"

definition Gain :: "('d, 'f) Tree \<Rightarrow> int \<Rightarrow> 'd option" where
  "Gain t nid = gain (node_at t nid)"

definition SumHess :: "('d, 'f) Tree \<Rightarrow> int \<Rightarrow> 'd option" where
  "SumHess t nid = sum_hess (node_at t nid)"

definition NumNodes :: "('d, 'f) Tree \<Rightarrow> int" where
  "NumNodes t = int (length (nodes t))"

subsection \<open>RegTreeHandler\<close>

text \<open>
  The members of \<^verbatim>\<open>RegTreeHandler\<close>: the ten parallel arrays filled by the array handlers
  that \<^verbatim>\<open>StartArray\<close> pushes, and the node count filled by the \<^verbatim>\<open>tree_param\<close> handler.
\<close>

record 'd RegTreeHandler =
  loss_changes :: "'d list"
  sum_hessian :: "'d list"
  base_weights :: "'d list"
  leaf_child_counts :: "int list"
  left_children :: "int list"
  right_children :: "int list"
  parents :: "int list"
  split_indices :: "int list"
  split_conditions :: "'d list"
  default_left :: "bool list"
  num_nodes :: int

text \<open>
  One turn of the \<^verbatim>\<open>while\<close> loop of \<^verbatim>\<open>RegTreeHandler::EndObject\<close> for the dequeued pair
  \<^verbatim>\<open>(old_id, new_id)\<close>: the tree after the turn and the pairs pushed on the queue, or \<open>None\<close>
  when a vector is read outside its range. \<open>d2f\<close> is the conversion from \<^verbatim>\<open>double\<close> to
  \<^verbatim>\<open>float\<close> that the calls of \<^verbatim>\<open>SetLeaf\<close> and \<^verbatim>\<open>SetNumericalSplit\<close> make.
\<close>

definition EndObject_visit ::
  "('d \<Rightarrow> 'f) \<Rightarrow> 'd RegTreeHandler \<Rightarrow> ('d, 'f) Tree \<Rightarrow> int \<Rightarrow> int \<Rightarrow>
     (('d, 'f) Tree \<times> (int \<times> int) list) option" where
  "EndObject_visit d2f h output old_id new_id = do {
     l \<leftarrow> vector_at (left_children h) old_id;
     if l = -1 then do {
       c \<leftarrow> vector_at (split_conditions h) old_id;
       let output = SetLeaf new_id (d2f c) output;
       s \<leftarrow> vector_at (sum_hessian h) old_id;
       Some (SetSumHess new_id s output, [])
     } else do {
       let output = AddChilds new_id output;
       i \<leftarrow> vector_at (split_indices h) old_id;
       c \<leftarrow> vector_at (split_conditions h) old_id;
       d \<leftarrow> vector_at (default_left h) old_id;
       let output = SetNumericalSplit new_id i (d2f c) d kLT output;
       g \<leftarrow> vector_at (loss_changes h) old_id;
       let output = SetGain new_id g output;
       l \<leftarrow> vector_at (left_children h) old_id;
       r \<leftarrow> vector_at (right_children h) old_id;
       let pushed = [(l, LeftChild output new_id), (r, RightChild output new_id)];
       s \<leftarrow> vector_at (sum_hessian h) old_id;
       Some (SetSumHess new_id s output, pushed)
     }
   }"

text \<open>
  The loop itself. The queue is a list, dequeued at the head and pushed at the end. A queue
  that never empties gives \<open>None\<close>.
\<close>

partial_function (option) EndObject_while ::
  "('d \<Rightarrow> 'f) \<Rightarrow> 'd RegTreeHandler \<Rightarrow> ('d, 'f) Tree \<Rightarrow> (int \<times> int) list \<Rightarrow>
     (error + ('d, 'f) Tree) option" where
  "EndObject_while d2f h output Q =
     (case Q of
        [] \<Rightarrow> Some (Inr output)
      | (old_id, new_id) # Q' \<Rightarrow>
          (case EndObject_visit d2f h output old_id new_id of
             None \<Rightarrow> Some (Inl UndefinedBehaviour)
           | Some (output', pushed) \<Rightarrow> EndObject_while d2f h output' (Q' @ pushed)))"

declare EndObject_while.simps [code]

text \<open>
  \<^verbatim>\<open>RegTreeHandler::EndObject\<close> up to its \<^verbatim>\<open>pop_handler()\<close>: the tree written to \<^verbatim>\<open>output\<close>.
  \<^verbatim>\<open>num_nodes\<close> is an \<^verbatim>\<open>int\<close> compared with a \<^verbatim>\<open>size_t\<close>: a negative count converts to a
  value no vector has as its size, so the comparison on \<open>int\<close> decides the same.
\<close>

definition RegTreeHandler_EndObject ::
  "('d \<Rightarrow> 'f) \<Rightarrow> 'd RegTreeHandler \<Rightarrow> error + ('d, 'f) Tree" where
  "RegTreeHandler_EndObject d2f h =
     (let output = Tree_Init in
      if num_nodes h \<noteq> int (length (loss_changes h)) \<or>
         num_nodes h \<noteq> int (length (sum_hessian h)) \<or>
         num_nodes h \<noteq> int (length (base_weights h)) \<or>
         num_nodes h \<noteq> int (length (leaf_child_counts h)) \<or>
         num_nodes h \<noteq> int (length (left_children h)) \<or>
         num_nodes h \<noteq> int (length (right_children h)) \<or>
         num_nodes h \<noteq> int (length (parents h)) \<or>
         num_nodes h \<noteq> int (length (split_indices h)) \<or>
         num_nodes h \<noteq> int (length (split_conditions h)) \<or>
         num_nodes h \<noteq> int (length (default_left h))
      then Inl (Rejected [])
      else (case EndObject_while d2f h output [(0, 0)] of
              None \<Rightarrow> Inl Nontermination
            | Some r \<Rightarrow> r))"


subsection \<open>The model under construction\<close>

text \<open>
  Modelled from the spec: \<^verbatim>\<open>treelite::ModelImpl<float, float>\<close> and its \<^verbatim>\<open>ModelParam\<close> are
  declared in \<^verbatim>\<open>treelite/tree.h\<close>, not among the sources. The fields are those the handlers
  write: the trees, the global bias and the prediction transform selector, the number of
  features, the number of output groups and the random forest flag.
\<close>

record 'f ModelParam =
  global_bias :: 'f
  pred_transform :: string

record ('d, 'f) Model =
  trees :: "('d, 'f) Tree list"
  param :: "'f ModelParam"
  num_feature :: int
  num_output_group :: int
  random_forest_flag :: bool

text \<open>
  What the handlers call and the sources do not define: the implicit conversion from
  \<^verbatim>\<open>double\<close> to \<^verbatim>\<open>float\<close>, \<^verbatim>\<open>atoi\<close> and \<^verbatim>\<open>strtof\<close> of the C library,
  \<^verbatim>\<open>SetPredTransform\<close> and \<^verbatim>\<open>TransformGlobalBiasToMargin\<close> of \<^verbatim>\<open>xgboost/xgboost.h\<close>, the
  model that \<^verbatim>\<open>Model::Create\<close> returns, and the value of the member \<^verbatim>\<open>num_nodes\<close> of a
  new \<^verbatim>\<open>RegTreeHandler\<close>, which the sources never initialise. They are parameters of the
  embedding.
\<close>

record ('d, 'f) Externals =
  to_float :: "'d \<Rightarrow> 'f"
  atoi :: "string \<Rightarrow> int"
  strtof :: "string \<Rightarrow> 'f"
  SetPredTransform :: "string \<Rightarrow> 'f ModelParam \<Rightarrow> 'f ModelParam"
  TransformGlobalBiasToMargin :: "'f ModelParam \<Rightarrow> 'f ModelParam"
  Model_Create :: "('d, 'f) Model"
  new_num_nodes :: int

subsection \<open>Events and handlers\<close>

text \<open>
  The events of the tokenizer: the methods of a \<^verbatim>\<open>rapidjson\<close> SAX handler (\<open>Int'\<close> is
  \<^verbatim>\<open>Int\<close>, a name that HOL reserves).
\<close>

datatype 'd event =
    Null | Bool bool | Int' int | Uint nat | Int64 int | Uint64 nat | Double 'd
  | String string | StartObject | Key string | EndObject nat | StartArray | EndArray nat

text \<open>
  The vector a pushed \<^verbatim>\<open>ArrayHandler\<close> appends to: the second argument of
  \<^verbatim>\<open>push_key_handler\<close>, a reference to a member of the handler that pushes it.
\<close>

datatype DoubleRef = ref_loss_changes | ref_sum_hessian | ref_base_weights | ref_split_conditions

datatype IntRef =
  ref_leaf_child_counts | ref_left_children | ref_right_children | ref_parents | ref_split_indices

text \<open>
  The handler classes with their own members. The \<^verbatim>\<open>output\<close> of a handler is a reference:
  to a member of the handler below it on the stack (array handlers, \<^verbatim>\<open>TreeParamHandler\<close>,
  \<^verbatim>\<open>ObjectiveHandler\<close>), to the last tree of the model (\<^verbatim>\<open>RegTreeHandler\<close>), or to the model.
\<close>

datatype 'd Handler =
    IgnoreHandler
  | ArrayHandler_double DoubleRef
  | ArrayHandler_int IntRef
  | ArrayHandler_bool
  | ArrayHandler_unsigned
  | ArrayHandler_Tree
  | TreeParamHandler
  | RegTreeHandler "'d RegTreeHandler"
  | GBTreeModelHandler
  | GradientBoosterHandler
  | ObjectiveHandler
  | LearnerParamHandler
  | LearnerHandler string
  | XGBoostModelHandler "nat list"
  | RootHandler

text \<open>A handler on the stack, with its \<^verbatim>\<open>cur_key\<close>.\<close>

type_synonym 'd Frame = "string \<times> 'd Handler"

record ('d, 'f) DelegatedHandler =
  delegates :: "'d Frame list"
  result :: "('d, 'f) Model"

subsection \<open>BaseHandler\<close>

text \<open>\<^verbatim>\<open>a || b || ...\<close> over calls that change nothing when they return \<^verbatim>\<open>false\<close>.\<close>

fun first_true :: "'a option list \<Rightarrow> 'a option" where
  "first_true [] = None"
| "first_true (Some a # rs) = Some a"
| "first_true (None # rs) = first_true rs"

definition check_cur_key :: "string \<Rightarrow> string \<Rightarrow> bool" where
  "check_cur_key cur_key query_key \<longleftrightarrow> cur_key = query_key"

text \<open>
  \<^verbatim>\<open>assign_value(key, value, output)\<close>: \<open>assign\<close> is the assignment to the place that \<^verbatim>\<open>output\<close>
  refers to. \<open>keep_if\<close> is a call of \<^verbatim>\<open>check_cur_key\<close> standing as a disjunct of its own.
\<close>

definition assign_value :: "string \<Rightarrow> string \<Rightarrow> 'v \<Rightarrow> ('v \<Rightarrow> 's) \<Rightarrow> 's option" where
  "assign_value cur_key key v assign =
     (if check_cur_key cur_key key then Some (assign v) else None)"

definition keep_if :: "bool \<Rightarrow> 's \<Rightarrow> 's option" where
  "keep_if b output = (if b then Some output else None)"

text \<open>
  Modelled from the spec: \<^verbatim>\<open>push_handler\<close>, \<^verbatim>\<open>push_key_handler\<close> and the stack operations are
  defined in \<^verbatim>\<open>xgboost/xgboost_json.h\<close>, not among the sources. A pushed handler becomes the
  top of the stack; \<^verbatim>\<open>push_key_handler\<close> pushes when the current key is the given one.
\<close>

definition push_key_handler :: "string \<Rightarrow> string \<Rightarrow> 'd Handler \<Rightarrow> 'd Handler option" where
  "push_key_handler cur_key key hdl = (if check_cur_key cur_key key then Some hdl else None)"

definition push_delegate ::
  "'d Handler \<Rightarrow> ('d, 'f) DelegatedHandler \<Rightarrow> ('d, 'f) DelegatedHandler" where
  "push_delegate hdl st = st\<lparr>delegates := ([], hdl) # delegates st\<rparr>"

definition pop_delegate :: "('d, 'f) DelegatedHandler \<Rightarrow> ('d, 'f) DelegatedHandler" where
  "pop_delegate st = st\<lparr>delegates := tl (delegates st)\<rparr>"

definition push_handler ::
  "'d Handler \<Rightarrow> ('d, 'f) DelegatedHandler \<Rightarrow> error + ('d, 'f) DelegatedHandler" where
  "push_handler hdl st = Inr (push_delegate hdl st)"

text \<open>
  \<^verbatim>\<open>BaseHandler::pop_handler\<close>. The weak pointer \<^verbatim>\<open>delegator\<close> is to the
  \<^verbatim>\<open>DelegatedHandler\<close> that \<^verbatim>\<open>ParseStream\<close> holds for the whole parse, so \<^verbatim>\<open>lock()\<close> succeeds.
\<close>

definition pop_handler :: "('d, 'f) DelegatedHandler \<Rightarrow> error + ('d, 'f) DelegatedHandler" where
  "pop_handler st = Inr (pop_delegate st)"

definition set_cur_key :: "string \<Rightarrow> ('d, 'f) DelegatedHandler \<Rightarrow> ('d, 'f) DelegatedHandler" where
  "set_cur_key s st =
     (case delegates st of [] \<Rightarrow> st | (k, hdl) # ds \<Rightarrow> st\<lparr>delegates := (s, hdl) # ds\<rparr>)"

definition accept :: "bool \<Rightarrow> 's \<Rightarrow> error + 's" where
  "accept b st = (if b then Inr st else Inl (Rejected []))"

definition accept_push ::
  "'d Handler option \<Rightarrow> ('d, 'f) DelegatedHandler \<Rightarrow> error + ('d, 'f) DelegatedHandler" where
  "accept_push r st = (case r of None \<Rightarrow> Inl (Rejected []) | Some hdl \<Rightarrow> push_handler hdl st)"

text \<open>
  Modelled from the spec: the methods of \<^verbatim>\<open>BaseHandler\<close> that a handler does not override
  (declared in \<^verbatim>\<open>xgboost/xgboost_json.h\<close>). A key sets \<^verbatim>\<open>cur_key\<close>, the end of an object or
  array pops the handler, every other event is rejected.
\<close>

definition BaseHandler_event ::
  "'d event \<Rightarrow> ('d, 'f) DelegatedHandler \<Rightarrow> error + ('d, 'f) DelegatedHandler" where
  "BaseHandler_event e st =
     (case e of
        Key s \<Rightarrow> Inr (set_cur_key s st)
      | EndObject n \<Rightarrow> pop_handler st
      | EndArray n \<Rightarrow> pop_handler st
      | _ \<Rightarrow> Inl (Rejected []))"

text \<open>Writing through an \<^verbatim>\<open>output\<close> reference to the handler below the top of the stack.\<close>

fun parent :: "'d Frame list \<Rightarrow> 'd Handler option" where
  "parent (fr # (k, p) # ds) = Some p"
| "parent ds = None"

fun map_parent :: "('d Handler \<Rightarrow> 'd Handler) \<Rightarrow> 'd Frame list \<Rightarrow> 'd Frame list" where
  "map_parent f (fr # (k, p) # ds) = fr # (k, f p) # ds"
| "map_parent f ds = ds"

definition output_RegTree ::
  "('d RegTreeHandler \<Rightarrow> 'd RegTreeHandler) \<Rightarrow> ('d, 'f) DelegatedHandler \<Rightarrow>
     ('d, 'f) DelegatedHandler" where
  "output_RegTree g st =
     st\<lparr>delegates := map_parent (\<lambda>p. case p of RegTreeHandler h \<Rightarrow> RegTreeHandler (g h) | _ \<Rightarrow> p)
       (delegates st)\<rparr>"

definition output_version ::
  "(nat list \<Rightarrow> nat list) \<Rightarrow> ('d, 'f) DelegatedHandler \<Rightarrow> ('d, 'f) DelegatedHandler" where
  "output_version g st =
     st\<lparr>delegates :=
       map_parent (\<lambda>p. case p of XGBoostModelHandler v \<Rightarrow> XGBoostModelHandler (g v) | _ \<Rightarrow> p)
         (delegates st)\<rparr>"

definition output_objective ::
  "(string \<Rightarrow> string) \<Rightarrow> ('d, 'f) DelegatedHandler \<Rightarrow> ('d, 'f) DelegatedHandler" where
  "output_objective g st =
     st\<lparr>delegates := map_parent (\<lambda>p. case p of LearnerHandler s \<Rightarrow> LearnerHandler (g s) | _ \<Rightarrow> p)
       (delegates st)\<rparr>"

definition output_Model ::
  "(('d, 'f) Model \<Rightarrow> ('d, 'f) Model) \<Rightarrow> ('d, 'f) DelegatedHandler \<Rightarrow>
     ('d, 'f) DelegatedHandler" where
  "output_Model g st = st\<lparr>result := g (result st)\<rparr>"

subsection \<open>IgnoreHandler and ArrayHandler\<close>

definition IgnoreHandler_event ::
  "'d event \<Rightarrow> ('d, 'f) DelegatedHandler \<Rightarrow> error + ('d, 'f) DelegatedHandler" where
  "IgnoreHandler_event e st =
     (case e of
        Null \<Rightarrow> Inr st | Bool b \<Rightarrow> Inr st | Int' i \<Rightarrow> Inr st | Uint u \<Rightarrow> Inr st
      | Int64 i \<Rightarrow> Inr st | Uint64 u \<Rightarrow> Inr st | Double d \<Rightarrow> Inr st | String s \<Rightarrow> Inr st
      | StartObject \<Rightarrow> push_handler IgnoreHandler st
      | Key s \<Rightarrow> Inr st
      | StartArray \<Rightarrow> push_handler IgnoreHandler st
      | _ \<Rightarrow> BaseHandler_event e st)"

definition push_back_double :: "DoubleRef \<Rightarrow> 'd \<Rightarrow> 'd RegTreeHandler \<Rightarrow> 'd RegTreeHandler" where
  "push_back_double r d h =
     (case r of
        ref_loss_changes \<Rightarrow> h\<lparr>loss_changes := loss_changes h @ [d]\<rparr>
      | ref_sum_hessian \<Rightarrow> h\<lparr>sum_hessian := sum_hessian h @ [d]\<rparr>
      | ref_base_weights \<Rightarrow> h\<lparr>base_weights := base_weights h @ [d]\<rparr>
      | ref_split_conditions \<Rightarrow> h\<lparr>split_conditions := split_conditions h @ [d]\<rparr>)"

definition push_back_int :: "IntRef \<Rightarrow> int \<Rightarrow> 'd RegTreeHandler \<Rightarrow> 'd RegTreeHandler" where
  "push_back_int r i h =
     (case r of
        ref_leaf_child_counts \<Rightarrow> h\<lparr>leaf_child_counts := leaf_child_counts h @ [i]\<rparr>
      | ref_left_children \<Rightarrow> h\<lparr>left_children := left_children h @ [i]\<rparr>
      | ref_right_children \<Rightarrow> h\<lparr>right_children := right_children h @ [i]\<rparr>
      | ref_parents \<Rightarrow> h\<lparr>parents := parents h @ [i]\<rparr>
      | ref_split_indices \<Rightarrow> h\<lparr>split_indices := split_indices h @ [i]\<rparr>)"

text \<open>\<^verbatim>\<open>static_cast<int>\<close> of an \<^verbatim>\<open>unsigned\<close>: values from \<open>2^31\<close> wrap to the negatives.\<close>

definition int_of_unsigned :: "nat \<Rightarrow> int" where
  "int_of_unsigned u = (if u < 2 ^ 31 then int u else int u - 2 ^ 32)"

text \<open>
  Modelled from the spec: the array accumulator \<^verbatim>\<open>ArrayHandler<T>\<close> is defined in
  \<^verbatim>\<open>xgboost/xgboost_json.h\<close>, not among the sources. It appends each event of the expected
  scalar kind to its output, rejects every other kind, and pops at the end of the array.
  The accumulator of trees appends a new tree at the start of an object and pushes a
  \<^verbatim>\<open>RegTreeHandler\<close> on it; \<open>n0\<close> is the \<^verbatim>\<open>num_nodes\<close> that handler starts with.
\<close>

definition new_RegTreeHandler :: "int \<Rightarrow> 'd RegTreeHandler" where
  "new_RegTreeHandler n0 = \<lparr>loss_changes = [], sum_hessian = [], base_weights = [],
     leaf_child_counts = [], left_children = [], right_children = [], parents = [],
     split_indices = [], split_conditions = [], default_left = [], num_nodes = n0\<rparr>"

definition ArrayHandler_event ::
  "int \<Rightarrow> 'd Handler \<Rightarrow> 'd event \<Rightarrow> ('d, 'f) DelegatedHandler \<Rightarrow>
     error + ('d, 'f) DelegatedHandler" where
  "ArrayHandler_event n0 hdl e st =
     (case (hdl, e) of
        (ArrayHandler_double r, Double d) \<Rightarrow> Inr (output_RegTree (push_back_double r d) st)
      | (ArrayHandler_int r, Int' i) \<Rightarrow> Inr (output_RegTree (push_back_int r i) st)
      | (ArrayHandler_int r, Uint u) \<Rightarrow>
          Inr (output_RegTree (push_back_int r (int_of_unsigned u)) st)
      | (ArrayHandler_bool, Bool b) \<Rightarrow>
          Inr (output_RegTree (\<lambda>h. h\<lparr>default_left := default_left h @ [b]\<rparr>) st)
      | (ArrayHandler_unsigned, Uint u) \<Rightarrow> Inr (output_version (\<lambda>v. v @ [u]) st)
      | (ArrayHandler_Tree, StartObject) \<Rightarrow>
          push_handler (RegTreeHandler (new_RegTreeHandler n0))
            (output_Model (\<lambda>m. m\<lparr>trees := trees m @ [\<lparr>nodes = []\<rparr>]\<rparr>) st)
      | _ \<Rightarrow> BaseHandler_event e st)"


subsection \<open>TreeParamHandler and RegTreeHandler\<close>

text \<open>\<^verbatim>\<open>TreeParamHandler::String\<close>: the new value of \<^verbatim>\<open>output\<close>, or \<open>None\<close> for \<^verbatim>\<open>false\<close>.\<close>

definition TreeParamHandler_String ::
  "('d, 'f) Externals \<Rightarrow> string \<Rightarrow> string \<Rightarrow> int \<Rightarrow> int option" where
  "TreeParamHandler_String x cur_key str output =
     first_true
       [keep_if (check_cur_key cur_key ''num_feature'') output,
        assign_value cur_key ''num_nodes'' (atoi x str) (\<lambda>v. v),
        keep_if (check_cur_key cur_key ''size_leaf_vector'') output,
        keep_if (check_cur_key cur_key ''num_deleted'') output]"

definition TreeParamHandler_event ::
  "('d, 'f) Externals \<Rightarrow> string \<Rightarrow> 'd event \<Rightarrow> ('d, 'f) DelegatedHandler \<Rightarrow>
     error + ('d, 'f) DelegatedHandler" where
  "TreeParamHandler_event x cur_key e st =
     (case e of
        String str \<Rightarrow>
          (case parent (delegates st) of
             Some (RegTreeHandler h) \<Rightarrow>
               (case TreeParamHandler_String x cur_key str (num_nodes h) of
                  None \<Rightarrow> Inl (Rejected [])
                | Some n \<Rightarrow> Inr (output_RegTree (\<lambda>h. h\<lparr>num_nodes := n\<rparr>) st))
           | _ \<Rightarrow> Inl UndefinedBehaviour)
      | _ \<Rightarrow> BaseHandler_event e st)"

text \<open>The handler that \<^verbatim>\<open>RegTreeHandler::StartArray\<close> pushes, or \<open>None\<close> for \<^verbatim>\<open>false\<close>.\<close>

definition RegTreeHandler_StartArray :: "string \<Rightarrow> 'd Handler option" where
  "RegTreeHandler_StartArray cur_key =
     first_true
       [push_key_handler cur_key ''loss_changes'' (ArrayHandler_double ref_loss_changes),
        push_key_handler cur_key ''sum_hessian'' (ArrayHandler_double ref_sum_hessian),
        push_key_handler cur_key ''base_weights'' (ArrayHandler_double ref_base_weights),
        push_key_handler cur_key ''categories'' IgnoreHandler,
        push_key_handler cur_key ''leaf_child_counts'' (ArrayHandler_int ref_leaf_child_counts),
        push_key_handler cur_key ''left_children'' (ArrayHandler_int ref_left_children),
        push_key_handler cur_key ''right_children'' (ArrayHandler_int ref_right_children),
        push_key_handler cur_key ''parents'' (ArrayHandler_int ref_parents),
        push_key_handler cur_key ''split_indices'' (ArrayHandler_int ref_split_indices),
        push_key_handler cur_key ''split_type'' IgnoreHandler,
        push_key_handler cur_key ''split_conditions'' (ArrayHandler_double ref_split_conditions),
        push_key_handler cur_key ''default_left'' ArrayHandler_bool]"

definition RegTreeHandler_StartObject :: "string \<Rightarrow> 'd Handler option" where
  "RegTreeHandler_StartObject cur_key = push_key_handler cur_key ''tree_param'' TreeParamHandler"

definition RegTreeHandler_Uint :: "string \<Rightarrow> nat \<Rightarrow> bool" where
  "RegTreeHandler_Uint cur_key u = check_cur_key cur_key ''id''"

text \<open>
  \<^verbatim>\<open>RegTreeHandler::EndObject\<close> on the stack: \<^verbatim>\<open>output\<close> is the last tree of the model, the
  one the array handler of trees appended before it pushed this handler.
\<close>

definition RegTreeHandler_event ::
  "('d, 'f) Externals \<Rightarrow> string \<Rightarrow> 'd RegTreeHandler \<Rightarrow> 'd event \<Rightarrow>
     ('d, 'f) DelegatedHandler \<Rightarrow> error + ('d, 'f) DelegatedHandler" where
  "RegTreeHandler_event x cur_key h e st =
     (case e of
        StartArray \<Rightarrow> accept_push (RegTreeHandler_StartArray cur_key) st
      | StartObject \<Rightarrow> accept_push (RegTreeHandler_StartObject cur_key) st
      | Uint u \<Rightarrow> accept (RegTreeHandler_Uint cur_key u) st
      | EndObject memberCount \<Rightarrow>
          (case RegTreeHandler_EndObject (to_float x) h of
             Inl err \<Rightarrow> Inl err
           | Inr t \<Rightarrow>
               pop_handler
                 (output_Model (\<lambda>m. m\<lparr>trees := (trees m)[length (trees m) - 1 := t]\<rparr>) st))
      | _ \<Rightarrow> BaseHandler_event e st)"

subsection \<open>GBTreeModelHandler and GradientBoosterHandler\<close>

definition GBTreeModelHandler_StartArray :: "string \<Rightarrow> 'd Handler option" where
  "GBTreeModelHandler_StartArray cur_key =
     first_true
       [push_key_handler cur_key ''trees'' ArrayHandler_Tree,
        push_key_handler cur_key ''tree_info'' IgnoreHandler]"

definition GBTreeModelHandler_StartObject :: "string \<Rightarrow> 'd Handler option" where
  "GBTreeModelHandler_StartObject cur_key =
     push_key_handler cur_key ''gbtree_model_param'' IgnoreHandler"

definition GBTreeModelHandler_event ::
  "string \<Rightarrow> 'd event \<Rightarrow> ('d, 'f) DelegatedHandler \<Rightarrow> error + ('d, 'f) DelegatedHandler" where
  "GBTreeModelHandler_event cur_key e st =
     (case e of
        StartArray \<Rightarrow> accept_push (GBTreeModelHandler_StartArray cur_key) st
      | StartObject \<Rightarrow> accept_push (GBTreeModelHandler_StartObject cur_key) st
      | _ \<Rightarrow> BaseHandler_event e st)"

text \<open>
  \<^verbatim>\<open>GradientBoosterHandler::String\<close>: the value returned and the lines written with
  \<^verbatim>\<open>LOG(ERROR)\<close>.
\<close>

definition GradientBoosterHandler_String :: "string \<Rightarrow> string \<Rightarrow> bool \<times> string list" where
  "GradientBoosterHandler_String cur_key str =
     (if \<not> check_cur_key cur_key ''name'' then (False, [])
      else if str \<noteq> ''gbtree''
        then (False, [''Only GBTree-type boosters are currently supported.''])
        else (True, []))"

definition GradientBoosterHandler_StartObject ::
  "string \<Rightarrow> 'd Handler option \<times> string list" where
  "GradientBoosterHandler_StartObject cur_key =
     (case push_key_handler cur_key ''model'' GBTreeModelHandler of
        Some hdl \<Rightarrow> (Some hdl, [])
      | None \<Rightarrow>
          (None, [''Key '' @ [CHR 0x22] @ cur_key @ [CHR 0x22] @
                  '' not recognized. Is this a GBTree-type booster?'']))"

definition GradientBoosterHandler_event ::
  "string \<Rightarrow> 'd event \<Rightarrow> ('d, 'f) DelegatedHandler \<Rightarrow> error + ('d, 'f) DelegatedHandler" where
  "GradientBoosterHandler_event cur_key e st =
     (case e of
        String str \<Rightarrow>
          (case GradientBoosterHandler_String cur_key str of
             (True, logged) \<Rightarrow> Inr st
           | (False, logged) \<Rightarrow> Inl (Rejected logged))
      | StartObject \<Rightarrow>
          (case GradientBoosterHandler_StartObject cur_key of
             (Some hdl, logged) \<Rightarrow> push_handler hdl st
           | (None, logged) \<Rightarrow> Inl (Rejected logged))
      | _ \<Rightarrow> BaseHandler_event e st)"

subsection \<open>ObjectiveHandler, LearnerParamHandler and LearnerHandler\<close>

definition ObjectiveHandler_StartObject :: "string \<Rightarrow> 'd Handler option" where
  "ObjectiveHandler_StartObject cur_key =
     first_true
       [push_key_handler cur_key ''reg_loss_param'' IgnoreHandler,
        push_key_handler cur_key ''poisson_regression_param'' IgnoreHandler,
        push_key_handler cur_key ''tweedie_regression_param'' IgnoreHandler,
        push_key_handler cur_key ''softmax_multiclass_param'' IgnoreHandler,
        push_key_handler cur_key ''lambda_rank_param'' IgnoreHandler,
        push_key_handler cur_key ''aft_loss_param'' IgnoreHandler]"

definition ObjectiveHandler_String :: "string \<Rightarrow> string \<Rightarrow> string option" where
  "ObjectiveHandler_String cur_key str = assign_value cur_key ''name'' str (\<lambda>v. v)"

definition ObjectiveHandler_event ::
  "string \<Rightarrow> 'd event \<Rightarrow> ('d, 'f) DelegatedHandler \<Rightarrow> error + ('d, 'f) DelegatedHandler" where
  "ObjectiveHandler_event cur_key e st =
     (case e of
        StartObject \<Rightarrow> accept_push (ObjectiveHandler_StartObject cur_key) st
      | String str \<Rightarrow>
          (case ObjectiveHandler_String cur_key str of
             None \<Rightarrow> Inl (Rejected [])
           | Some s \<Rightarrow> Inr (output_objective (\<lambda>_. s) st))
      | _ \<Rightarrow> BaseHandler_event e st)"

text \<open>\<^verbatim>\<open>LearnerParamHandler::String\<close>: the model after the call, or \<open>None\<close> for \<^verbatim>\<open>false\<close>.\<close>

definition LearnerParamHandler_String ::
  "('d, 'f) Externals \<Rightarrow> string \<Rightarrow> string \<Rightarrow> ('d, 'f) Model \<Rightarrow> ('d, 'f) Model option" where
  "LearnerParamHandler_String x cur_key str output =
     first_true
       [assign_value cur_key ''base_score'' (strtof x str)
          (\<lambda>v. output\<lparr>param := (param output)\<lparr>global_bias := v\<rparr>\<rparr>),
        assign_value cur_key ''num_class'' (max (atoi x str) 1)
          (\<lambda>v. output\<lparr>num_output_group := v\<rparr>),
        assign_value cur_key ''num_feature'' (atoi x str)
          (\<lambda>v. output\<lparr>num_feature := v\<rparr>)]"

definition LearnerParamHandler_event ::
  "('d, 'f) Externals \<Rightarrow> string \<Rightarrow> 'd event \<Rightarrow> ('d, 'f) DelegatedHandler \<Rightarrow>
     error + ('d, 'f) DelegatedHandler" where
  "LearnerParamHandler_event x cur_key e st =
     (case e of
        String str \<Rightarrow>
          (case LearnerParamHandler_String x cur_key str (result st) of
             None \<Rightarrow> Inl (Rejected [])
           | Some m \<Rightarrow> Inr (output_Model (\<lambda>_. m) st))
      | _ \<Rightarrow> BaseHandler_event e st)"

definition LearnerHandler_StartObject :: "string \<Rightarrow> 'd Handler option" where
  "LearnerHandler_StartObject cur_key =
     first_true
       [push_key_handler cur_key ''learner_model_param'' LearnerParamHandler,
        push_key_handler cur_key ''gradient_booster'' GradientBoosterHandler,
        push_key_handler cur_key ''objective'' ObjectiveHandler,
        push_key_handler cur_key ''attributes'' IgnoreHandler]"

definition LearnerHandler_EndObject ::
  "('d, 'f) Externals \<Rightarrow> string \<Rightarrow> ('d, 'f) Model \<Rightarrow> ('d, 'f) Model" where
  "LearnerHandler_EndObject x objective output =
     output\<lparr>param := SetPredTransform x objective (param output)\<rparr>"

definition LearnerHandler_event ::
  "('d, 'f) Externals \<Rightarrow> string \<Rightarrow> string \<Rightarrow> 'd event \<Rightarrow> ('d, 'f) DelegatedHandler \<Rightarrow>
     error + ('d, 'f) DelegatedHandler" where
  "LearnerHandler_event x cur_key objective e st =
     (case e of
        StartObject \<Rightarrow> accept_push (LearnerHandler_StartObject cur_key) st
      | EndObject memberCount \<Rightarrow>
          pop_handler (output_Model (LearnerHandler_EndObject x objective) st)
      | _ \<Rightarrow> BaseHandler_event e st)"

subsection \<open>XGBoostModelHandler and RootHandler\<close>

definition XGBoostModelHandler_StartArray :: "string \<Rightarrow> 'd Handler option" where
  "XGBoostModelHandler_StartArray cur_key =
     push_key_handler cur_key ''version'' ArrayHandler_unsigned"

definition XGBoostModelHandler_StartObject :: "string \<Rightarrow> 'd Handler option" where
  "XGBoostModelHandler_StartObject cur_key =
     push_key_handler cur_key ''learner'' (LearnerHandler [])"

text \<open>
  \<^verbatim>\<open>XGBoostModelHandler::EndObject\<close> up to its \<^verbatim>\<open>pop_handler()\<close>: the model after the call.
  \<^verbatim>\<open>version[0]\<close> is read with no check of the size of \<^verbatim>\<open>version\<close>.
\<close>

definition XGBoostModelHandler_EndObject ::
  "('d, 'f) Externals \<Rightarrow> nat list \<Rightarrow> nat \<Rightarrow> ('d, 'f) Model \<Rightarrow> error + ('d, 'f) Model" where
  "XGBoostModelHandler_EndObject x version memberCount output =
     (if memberCount \<noteq> 2 then Inl (Rejected [])
      else
        let output = output\<lparr>random_forest_flag := False\<rparr> in
        case vector_at version 0 of
          None \<Rightarrow> Inl UndefinedBehaviour
        | Some v0 \<Rightarrow>
            let need_transform_to_margin = (v0 \<ge> 1) in
            if need_transform_to_margin
            then Inr (output\<lparr>param := TransformGlobalBiasToMargin x (param output)\<rparr>)
            else Inr output)"

definition XGBoostModelHandler_event ::
  "('d, 'f) Externals \<Rightarrow> string \<Rightarrow> nat list \<Rightarrow> 'd event \<Rightarrow> ('d, 'f) DelegatedHandler \<Rightarrow>
     error + ('d, 'f) DelegatedHandler" where
  "XGBoostModelHandler_event x cur_key version e st =
     (case e of
        StartArray \<Rightarrow> accept_push (XGBoostModelHandler_StartArray cur_key) st
      | StartObject \<Rightarrow> accept_push (XGBoostModelHandler_StartObject cur_key) st
      | EndObject memberCount \<Rightarrow>
          (case XGBoostModelHandler_EndObject x version memberCount (result st) of
             Inl err \<Rightarrow> Inl err
           | Inr m \<Rightarrow> pop_handler (output_Model (\<lambda>_. m) st))
      | _ \<Rightarrow> BaseHandler_event e st)"

definition RootHandler_event ::
  "'d event \<Rightarrow> ('d, 'f) DelegatedHandler \<Rightarrow> error + ('d, 'f) DelegatedHandler" where
  "RootHandler_event e st =
     (case e of
        StartObject \<Rightarrow> push_handler (XGBoostModelHandler []) st
      | _ \<Rightarrow> BaseHandler_event e st)"

subsection \<open>DelegatedHandler and ParseStream\<close>

text \<open>
  Every method of \<^verbatim>\<open>DelegatedHandler\<close> forwards the event to \<^verbatim>\<open>delegates.top()\<close>, whose
  class decides the method that runs.
\<close>

definition DelegatedHandler_event ::
  "('d, 'f) Externals \<Rightarrow> 'd event \<Rightarrow> ('d, 'f) DelegatedHandler \<Rightarrow>
     error + ('d, 'f) DelegatedHandler" where
  "DelegatedHandler_event x e st =
     (case delegates st of
        [] \<Rightarrow> Inl UndefinedBehaviour
      | (cur_key, hdl) # ds \<Rightarrow>
          (case hdl of
             IgnoreHandler \<Rightarrow> IgnoreHandler_event e st
           | TreeParamHandler \<Rightarrow> TreeParamHandler_event x cur_key e st
           | RegTreeHandler h \<Rightarrow> RegTreeHandler_event x cur_key h e st
           | GBTreeModelHandler \<Rightarrow> GBTreeModelHandler_event cur_key e st
           | GradientBoosterHandler \<Rightarrow> GradientBoosterHandler_event cur_key e st
           | ObjectiveHandler \<Rightarrow> ObjectiveHandler_event cur_key e st
           | LearnerParamHandler \<Rightarrow> LearnerParamHandler_event x cur_key e st
           | LearnerHandler objective \<Rightarrow> LearnerHandler_event x cur_key objective e st
           | XGBoostModelHandler version \<Rightarrow> XGBoostModelHandler_event x cur_key version e st
           | RootHandler \<Rightarrow> RootHandler_event e st
           | _ \<Rightarrow> ArrayHandler_event (new_num_nodes x) hdl e st))"

text \<open>
  Modelled from the spec: \<^verbatim>\<open>DelegatedHandler::create\<close> is defined in
  \<^verbatim>\<open>xgboost/xgboost_json.h\<close>, not among the sources. The stack starts with the root handler
  on a new, empty model.
\<close>

definition DelegatedHandler_create :: "('d, 'f) Externals \<Rightarrow> ('d, 'f) DelegatedHandler" where
  "DelegatedHandler_create x = \<lparr>delegates = [([], RootHandler)], result = Model_Create x\<rparr>"

text \<open>
  Modelled from the spec: \<^verbatim>\<open>rapidjson::Reader::Parse\<close>, the tokenizer. The document is the
  list of its events; the reader calls the handler on each in turn and stops with an error
  at the first event the handler rejects.
\<close>

fun Reader_Parse ::
  "('d, 'f) Externals \<Rightarrow> 'd event list \<Rightarrow> ('d, 'f) DelegatedHandler \<Rightarrow>
     error + ('d, 'f) DelegatedHandler" where
  "Reader_Parse x [] st = Inr st"
| "Reader_Parse x (e # es) st =
     (case DelegatedHandler_event x e st of
        Inl err \<Rightarrow> Inl err
      | Inr st' \<Rightarrow> Reader_Parse x es st')"

text \<open>
  \<^verbatim>\<open>ParseStream\<close>: a rejected event is logged (the code and the offset of the error are left
  out of the line) and ends the load with \<^verbatim>\<open>LOG(FATAL)\<close>; otherwise the model is returned.
\<close>

definition ParseStream :: "('d, 'f) Externals \<Rightarrow> 'd event list \<Rightarrow> error + ('d, 'f) Model" where
  "ParseStream x input_stream =
     (case Reader_Parse x input_stream (DelegatedHandler_create x) of
        Inl (Rejected logged) \<Rightarrow>
          Inl (Fatal (logged @ [''Parsing error'',
                 ''Provided JSON could not be parsed as XGBoost model'']))
      | Inl err \<Rightarrow> Inl err
      | Inr st \<Rightarrow> Inr (result st))"

definition lengths_agree :: "'d RegTreeHandler \<Rightarrow> bool" where
  "lengths_agree h \<longleftrightarrow>
     num_nodes h = int (length (loss_changes h)) \<and>
     num_nodes h = int (length (sum_hessian h)) \<and>
     num_nodes h = int (length (base_weights h)) \<and>
     num_nodes h = int (length (leaf_child_counts h)) \<and>
     num_nodes h = int (length (left_children h)) \<and>
     num_nodes h = int (length (right_children h)) \<and>
     num_nodes h = int (length (parents h)) \<and>
     num_nodes h = int (length (split_indices h)) \<and>
     num_nodes h = int (length (split_conditions h)) \<and>
     num_nodes h = int (length (default_left h))"

inductive well_formed_at :: "'d RegTreeHandler \<Rightarrow> int \<Rightarrow> bool" for h where
  leaf: "0 \<le> i \<Longrightarrow> i < num_nodes h \<Longrightarrow> left_children h ! nat i = -1 \<Longrightarrow> well_formed_at h i"
| split: "0 \<le> i \<Longrightarrow> i < num_nodes h \<Longrightarrow> left_children h ! nat i \<noteq> -1 \<Longrightarrow>
     well_formed_at h (left_children h ! nat i) \<Longrightarrow>
     well_formed_at h (right_children h ! nat i) \<Longrightarrow> well_formed_at h i"

inductive subtree_size :: "'d RegTreeHandler \<Rightarrow> int \<Rightarrow> nat \<Rightarrow> bool" for h where
  leaf: "0 \<le> i \<Longrightarrow> i < num_nodes h \<Longrightarrow> left_children h ! nat i = -1 \<Longrightarrow> subtree_size h i 1"
| split: "0 \<le> i \<Longrightarrow> i < num_nodes h \<Longrightarrow> left_children h ! nat i \<noteq> -1 \<Longrightarrow>
     subtree_size h (left_children h ! nat i) a \<Longrightarrow>
     subtree_size h (right_children h ! nat i) b \<Longrightarrow> subtree_size h i (Suc (a + b))"

inductive mirrors ::
  "('d \<Rightarrow> 'f) \<Rightarrow> 'd RegTreeHandler \<Rightarrow> ('d, 'f) Tree \<Rightarrow> int \<Rightarrow> int \<Rightarrow> bool"
  for d2f h T where
  leaf: "0 \<le> i \<Longrightarrow> i < num_nodes h \<Longrightarrow> 0 \<le> j \<Longrightarrow> j < NumNodes T \<Longrightarrow>
     left_children h ! nat i = -1 \<Longrightarrow>
     cleft (node_at T j) = -1 \<Longrightarrow>
     info (node_at T j) = leaf_value (d2f (split_conditions h ! nat i)) \<Longrightarrow>
     sum_hess (node_at T j) = Some (sum_hessian h ! nat i) \<Longrightarrow>
     mirrors d2f h T i j"
| split: "0 \<le> i \<Longrightarrow> i < num_nodes h \<Longrightarrow> 0 \<le> j \<Longrightarrow> j < NumNodes T \<Longrightarrow>
     left_children h ! nat i \<noteq> -1 \<Longrightarrow>
     cleft (node_at T j) \<noteq> -1 \<Longrightarrow>
     sindex (node_at T j) = split_indices h ! nat i \<Longrightarrow>
     info (node_at T j) = threshold (d2f (split_conditions h ! nat i)) \<Longrightarrow>
     default_left_flag (node_at T j) = default_left h ! nat i \<Longrightarrow>
     cmp (node_at T j) = kLT \<Longrightarrow>
     gain (node_at T j) = Some (loss_changes h ! nat i) \<Longrightarrow>
     sum_hess (node_at T j) = Some (sum_hessian h ! nat i) \<Longrightarrow>
     mirrors d2f h T (left_children h ! nat i) (cleft (node_at T j)) \<Longrightarrow>
     mirrors d2f h T (right_children h ! nat i) (cright (node_at T j)) \<Longrightarrow>
     mirrors d2f h T i j"

inductive reached :: "'d RegTreeHandler \<Rightarrow> ('d, 'f) Tree \<Rightarrow> int \<Rightarrow> int \<Rightarrow> bool"
  for h T where
  root: "reached h T 0 0"
| left: "reached h T i j \<Longrightarrow> left_children h ! nat i \<noteq> -1 \<Longrightarrow>
     reached h T (left_children h ! nat i) (LeftChild T j)"
| right: "reached h T i j \<Longrightarrow> left_children h ! nat i \<noteq> -1 \<Longrightarrow>
     reached h T (right_children h ! nat i) (RightChild T j)"

text \<open>
  What two parses of one document need not share: the value that \<^verbatim>\<open>num_nodes\<close> has in a new
  \<^verbatim>\<open>RegTreeHandler\<close>. \<open>forget\<close> sets it to 0 in every tree handler on the stack.
\<close>

definition forget_num_nodes :: "'d Handler \<Rightarrow> 'd Handler" where
  "forget_num_nodes hdl =
     (case hdl of RegTreeHandler h \<Rightarrow> RegTreeHandler (h\<lparr>num_nodes := 0\<rparr>) | _ \<Rightarrow> hdl)"

definition forget :: "('d, 'f) DelegatedHandler \<Rightarrow> ('d, 'f) DelegatedHandler" where
  "forget st = st\<lparr>delegates := map (apsnd forget_num_nodes) (delegates st)\<rparr>"

definition three_nodes :: "int RegTreeHandler" where
  "three_nodes = \<lparr>loss_changes = [5, 0, 0], sum_hessian = [10, 4, 6],
     base_weights = [0, 0, 0], leaf_child_counts = [0, 0, 0],
     left_children = [1, -1, -1], right_children = [2, -1, -1],
     parents = [2147483647, 0, 0], split_indices = [3, 0, 0],
     split_conditions = [7, 1, 2], default_left = [True, False, False],
     num_nodes = 3\<rparr>"

text \<open>
  Stand-ins for the parameters on the examples: \<open>example_atoi\<close> reads an optional minus sign
  and decimal digits, the conversion to \<^verbatim>\<open>float\<close> is the identity on \<open>int\<close>, and the two
  functions of \<^verbatim>\<open>xgboost/xgboost.h\<close> are simple functions that can be told apart.
\<close>

fun digits_to_int :: "int \<Rightarrow> string \<Rightarrow> int" where
  "digits_to_int acc [] = acc"
| "digits_to_int acc (c # cs) =
     (if c \<in> set ''0123456789'' then digits_to_int (10 * acc + (int (of_char c) - 48)) cs
      else acc)"

definition example_atoi :: "string \<Rightarrow> int" where
  "example_atoi s =
     (case s of CHR ''-'' # cs \<Rightarrow> - digits_to_int 0 cs | _ \<Rightarrow> digits_to_int 0 s)"

definition example_externals :: "(int, int) Externals" where
  "example_externals =
     \<lparr>to_float = (\<lambda>d. d),
      atoi = example_atoi,
      strtof = example_atoi,
      SetPredTransform =
        (\<lambda>name p. p\<lparr>pred_transform :=
           (if name = ''binary:logistic'' then ''sigmoid'' else ''identity'')\<rparr>),
      TransformGlobalBiasToMargin = (\<lambda>p. p\<lparr>global_bias := global_bias p - 1\<rparr>),
      Model_Create =
        \<lparr>trees = [], param = \<lparr>global_bias = 0, pred_transform = ''identity''\<rparr>,
         num_feature = 0, num_output_group = 1, random_forest_flag = False\<rparr>,
      new_num_nodes = 0\<rparr>"

text \<open>
  The events of an example document, in parts: up to the key of the booster's name, on to
  the start of the array of trees, one tree of three nodes up to its last array, that
  array and the tree's id, and what follows the tree up to the end of the learner. The
  document is \<open>example_document\<close>.
\<close>

definition doc_start :: "int event list" where
  "doc_start =
     [StartObject,
      Key ''version'', StartArray, Uint 1, Uint 0, Uint 0, EndArray 3,
      Key ''learner'', StartObject,
      Key ''learner_model_param'', StartObject,
      Key ''base_score'', String ''5'', Key ''num_class'', String ''0'',
      Key ''num_feature'', String ''4'', EndObject 3,
      Key ''gradient_booster'', StartObject,
      Key ''name'']"

definition doc_model :: "int event list" where
  "doc_model =
     [String ''gbtree'',
      Key ''model'', StartObject,
      Key ''gbtree_model_param'', StartObject, Key ''num_trees'', String ''1'', EndObject 1,
      Key ''trees'', StartArray]"

definition tree_start :: "int event list" where
  "tree_start =
     [StartObject,
      Key ''tree_param'', StartObject, Key ''num_nodes'', String ''3'',
      Key ''num_feature'', String ''4'', EndObject 2,
      Key ''loss_changes'', StartArray, Double 5, Double 0, Double 0, EndArray 3,
      Key ''sum_hessian'', StartArray, Double 10, Double 4, Double 6, EndArray 3,
      Key ''base_weights'', StartArray, Double 0, Double 0, Double 0, EndArray 3,
      Key ''leaf_child_counts'', StartArray, Uint 0, Uint 0, Uint 0, EndArray 3,
      Key ''left_children'', StartArray, Uint 1, Int' (-1), Int' (-1), EndArray 3,
      Key ''right_children'', StartArray, Uint 2, Int' (-1), Int' (-1), EndArray 3,
      Key ''parents'', StartArray, Uint 2147483647, Uint 0, Uint 0, EndArray 3,
      Key ''split_indices'', StartArray, Uint 3, Uint 0, Uint 0, EndArray 3,
      Key ''split_conditions'', StartArray, Double 7, Double 1, Double 2, EndArray 3]"

definition tree_rest :: "int event list" where
  "tree_rest =
     [Key ''default_left'', StartArray, Bool True, Bool False, Bool False, EndArray 3,
      Key ''id'', Uint 0]"

definition doc_tail :: "int event list" where
  "doc_tail =
     [EndArray 1,
      Key ''tree_info'', StartArray, Uint 0, EndArray 1,
      EndObject 3,
      EndObject 2,
      Key ''objective'', StartObject, Key ''name'', String ''reg:squarederror'',
      Key ''reg_loss_param'', StartObject, Key ''scale_pos_weight'', String ''1'',
      EndObject 1, EndObject 2,
      EndObject 3]"

definition example_document :: "int event list" where
  "example_document =
     doc_start @ doc_model @ tree_start @ tree_rest @ [EndObject 12] @ doc_tail @ [EndObject 2]"

text \<open>The states of the stack on the way through the example document.\<close>

definition state_start :: "(int, int) DelegatedHandler" where
  "state_start =
     \<lparr>delegates =
        [(''name'', GradientBoosterHandler),
         (''gradient_booster'', LearnerHandler []),
         (''learner'', XGBoostModelHandler [1, 0, 0]),
         ([], RootHandler)],
      result =
        \<lparr>trees = [], param = \<lparr>global_bias = 5, pred_transform = ''identity''\<rparr>,
         num_feature = 4, num_output_group = 1, random_forest_flag = False\<rparr>\<rparr>"

definition state_model :: "(int, int) DelegatedHandler" where
  "state_model =
     state_start\<lparr>delegates :=
       ([], ArrayHandler_Tree) # (''trees'', GBTreeModelHandler) #
       (''model'', GradientBoosterHandler) # tl (delegates state_start)\<rparr>"

definition state_tree :: "string \<Rightarrow> bool list \<Rightarrow> (int, int) DelegatedHandler" where
  "state_tree cur_key dl =
     \<lparr>delegates =
        (cur_key, RegTreeHandler (three_nodes\<lparr>default_left := dl\<rparr>)) # delegates state_model,
      result = (result state_model)\<lparr>trees := [\<lparr>nodes = []\<rparr>]\<rparr>\<rparr>"

definition example_tree :: "(int, int) Tree" where
  "example_tree =
     \<lparr>nodes =
        [\<lparr>cleft = 1, cright = 2, sindex = 3, default_left_flag = True, info = threshold 7,
          cmp = kLT, gain = Some 5, sum_hess = Some 10\<rparr>,
         \<lparr>cleft = -1, cright = -1, sindex = 0, default_left_flag = False, info = leaf_value 1,
          cmp = kNone, gain = None, sum_hess = Some 4\<rparr>,
         \<lparr>cleft = -1, cright = -1, sindex = 0, default_left_flag = False, info = leaf_value 2,
          cmp = kNone, gain = None, sum_hess = Some 6\<rparr>]\<rparr>"

definition state_trees :: "(int, int) DelegatedHandler" where
  "state_trees = state_model\<lparr>result := (result state_model)\<lparr>trees := [example_tree]\<rparr>\<rparr>"

definition state_end :: "(int, int) DelegatedHandler" where
  "state_end =
     \<lparr>delegates = [(''learner'', XGBoostModelHandler [1, 0, 0]), ([], RootHandler)],
      result = (result state_trees)\<lparr>param :=
        \<lparr>global_bias = 5, pred_transform = ''identity''\<rparr>\<rparr>\<rparr>"

definition state_param :: "string \<Rightarrow> (int, int) DelegatedHandler" where
  "state_param cur_key =
     \<lparr>delegates =
        (cur_key, TreeParamHandler) # (''tree_param'', RegTreeHandler (new_RegTreeHandler 0)) #
        delegates state_model,
      result = (result state_model)\<lparr>trees := [\<lparr>nodes = []\<rparr>]\<rparr>\<rparr>"

definition example_model :: "(int, int) Model" where
  "example_model =
     \<lparr>trees = [example_tree], param = \<lparr>global_bias = 4, pred_transform = ''identity''\<rparr>,
      num_feature = 4, num_output_group = 1, random_forest_flag = False\<rparr>"

text \<open>
  Modelled from the spec: the documents that \<^verbatim>\<open>rapidjson::Reader::Parse\<close> reads. The reader
  accepts one JSON value and calls the handler on its events in the order of the text: a
  scalar is one event (a number is one of the five number events), an array is
  \<^verbatim>\<open>StartArray\<close>, the events of its elements and \<^verbatim>\<open>EndArray\<close> with the number of elements, an
  object is \<^verbatim>\<open>StartObject\<close>, for each member \<^verbatim>\<open>Key\<close> and the events of the value, and
  \<^verbatim>\<open>EndObject\<close> with the number of members.
\<close>

datatype 'd json =
    JNull | JBool bool | JInt int | JUint nat | JInt64 int | JUint64 nat | JDouble 'd
  | JString string | JArray "'d json list" | JObject "(string \<times> 'd json) list"

fun events_of :: "'d json \<Rightarrow> 'd event list" where
  "events_of JNull = [Null]"
| "events_of (JBool b) = [Bool b]"
| "events_of (JInt i) = [Int' i]"
| "events_of (JUint u) = [Uint u]"
| "events_of (JInt64 i) = [Int64 i]"
| "events_of (JUint64 u) = [Uint64 u]"
| "events_of (JDouble d) = [Double d]"
| "events_of (JString s) = [String s]"
| "events_of (JArray vs) = StartArray # concat (map events_of vs) @ [EndArray (length vs)]"
| "events_of (JObject ms) =
     StartObject # concat (map (\<lambda>(k, v). Key k # events_of v) ms) @ [EndObject (length ms)]"

abbreviation elements :: "'d json list \<Rightarrow> 'd event list" where
  "elements vs \<equiv> concat (map events_of vs)"

abbreviation members :: "(string \<times> 'd json) list \<Rightarrow> 'd event list" where
  "members ms \<equiv> concat (map (\<lambda>(k, v). Key k # events_of v) ms)"

text \<open>
  The shape of the stack of handlers: the classes of the handlers on it, without the data
  that they hold. A handler pushed at the start of an object or array is never the root
  handler, and the handler of the top-level object is pushed by the root handler only; the
  end of an object or array pops one handler; no other event changes the shape.
\<close>

definition erase :: "'d Handler \<Rightarrow> 'd Handler" where
  "erase hdl =
     (case hdl of
        RegTreeHandler h \<Rightarrow> RegTreeHandler (new_RegTreeHandler 0)
      | LearnerHandler s \<Rightarrow> LearnerHandler []
      | XGBoostModelHandler v \<Rightarrow> XGBoostModelHandler []
      | _ \<Rightarrow> hdl)"

definition shape :: "('d, 'f) DelegatedHandler \<Rightarrow> 'd Handler list" where
  "shape st = map (\<lambda>fr. erase (snd fr)) (delegates st)"

definition plain :: "'d Handler \<Rightarrow> bool" where
  "plain hdl \<longleftrightarrow> erase hdl \<noteq> RootHandler \<and> erase hdl \<noteq> XGBoostModelHandler []"

definition pushed :: "'d Handler list \<Rightarrow> 'd Handler list \<Rightarrow> bool" where
  "pushed sh sh' \<longleftrightarrow>
     (\<exists>K. sh' = K # sh \<and> K \<noteq> RootHandler \<and>
        (K = XGBoostModelHandler [] \<longrightarrow> (\<exists>ks. sh = RootHandler # ks)))"

definition step_shape :: "'d event \<Rightarrow> 'd Handler list \<Rightarrow> 'd Handler list \<Rightarrow> bool" where
  "step_shape e sh sh' =
     (case e of
        StartObject \<Rightarrow> pushed sh sh'
      | StartArray \<Rightarrow> pushed sh sh'
      | EndObject n \<Rightarrow> sh' = tl sh
      | EndArray n \<Rightarrow> sh' = tl sh
      | _ \<Rightarrow> sh' = sh)"


definition gblinear_json :: "int json" where
  "gblinear_json =
     JObject
      [(''version'', JArray [JUint 1, JUint 0, JUint 0]),
       (''learner'', JObject
         [(''learner_model_param'', JObject
            [(''base_score'', JString ''5''), (''num_class'', JString ''0''),
             (''num_feature'', JString ''4'')]),
          (''gradient_booster'', JObject [(''name'', JString ''gblinear'')])])]"

lemma well_formed_size: "well_formed_at h i \<Longrightarrow> \<exists>k. subtree_size h i k"
  by (induction rule: well_formed_at.induct) (blast intro: subtree_size.intros)+

lemma subtree_size_pos: "subtree_size h i k \<Longrightarrow> 0 < k"
  by (induction rule: subtree_size.induct) simp_all

lemma vector_at_in:
  "0 \<le> i \<Longrightarrow> i < int (length v) \<Longrightarrow> vector_at v i = Some (v ! nat i)"
  by (simp add: vector_at_def)

lemma nodes_update_node:
  "nodes (update_node nid f t) = (nodes t)[nat nid := f (nodes t ! nat nid)]"
  by (simp add: update_node_def)

lemma visit_leaf:
  assumes "lengths_agree h" "0 \<le> i" "i < num_nodes h" "left_children h ! nat i = -1"
    and "0 \<le> j" "nat j < length (nodes T)"
  shows "\<exists>T1. EndObject_visit d2f h T i j = Some (T1, []) \<and>
    length (nodes T1) = length (nodes T) \<and>
    (\<forall>q. q \<noteq> nat j \<longrightarrow> nodes T1 ! q = nodes T ! q) \<and>
    cleft (nodes T1 ! nat j) = -1 \<and>
    info (nodes T1 ! nat j) = leaf_value (d2f (split_conditions h ! nat i)) \<and>
    sum_hess (nodes T1 ! nat j) = Some (sum_hessian h ! nat i)"
  using assms
  by (simp add: EndObject_visit_def lengths_agree_def vector_at_in SetLeaf_def SetSumHess_def
      update_node_def)

lemma visit_split:
  assumes "lengths_agree h" "0 \<le> i" "i < num_nodes h" "left_children h ! nat i \<noteq> -1"
    and "0 \<le> j" "nat j < length (nodes T)"
  shows "\<exists>T1. EndObject_visit d2f h T i j =
      Some (T1, [(left_children h ! nat i, int (length (nodes T))),
                 (right_children h ! nat i, int (length (nodes T)) + 1)]) \<and>
    length (nodes T1) = length (nodes T) + 2 \<and>
    (\<forall>q. q \<noteq> nat j \<longrightarrow> q < length (nodes T) \<longrightarrow> nodes T1 ! q = nodes T ! q) \<and>
    cleft (nodes T1 ! nat j) = int (length (nodes T)) \<and>
    cright (nodes T1 ! nat j) = int (length (nodes T)) + 1 \<and>
    sindex (nodes T1 ! nat j) = split_indices h ! nat i \<and>
    default_left_flag (nodes T1 ! nat j) = default_left h ! nat i \<and>
    info (nodes T1 ! nat j) = threshold (d2f (split_conditions h ! nat i)) \<and>
    cmp (nodes T1 ! nat j) = kLT \<and>
    gain (nodes T1 ! nat j) = Some (loss_changes h ! nat i) \<and>
    sum_hess (nodes T1 ! nat j) = Some (sum_hessian h ! nat i)"
  using assms
  by (simp add: EndObject_visit_def lengths_agree_def vector_at_in SetNumericalSplit_def
      SetGain_def SetSumHess_def AddChilds_def update_node_def Let_def LeftChild_def
      RightChild_def node_at_def nth_append)


lemma while_correct:
  assumes la: "lengths_agree h"
  shows "list_all2 (\<lambda>(i, j) k. subtree_size h i k) Q ks \<Longrightarrow>
         sum_list ks = m \<Longrightarrow>
         length Q \<le> length (nodes T) \<Longrightarrow>
         map snd Q = map int [length (nodes T) - length Q ..< length (nodes T)] \<Longrightarrow>
         \<exists>T'. EndObject_while d2f h T Q = Some (Inr T') \<and>
              length (nodes T) \<le> length (nodes T') \<and>
              (\<forall>p < length (nodes T) - length Q. nodes T' ! p = nodes T ! p) \<and>
              (\<forall>(i, j) \<in> set Q. mirrors d2f h T' i j)"
proof (induction m arbitrary: Q ks T rule: less_induct)
  case (less m)
  show ?case
  proof (cases Q)
    case Nil
    then show ?thesis
      by (subst EndObject_while.simps) simp
  next
    case (Cons x Q')
    obtain i j where x: "x = (i, j)" by (cases x)
    define n where "n = length (nodes T)"
    define p where "p = n - length Q"
    from less.prems(1) Cons x obtain k ks' where ks: "ks = k # ks'"
      and k: "subtree_size h i k"
      and rest: "list_all2 (\<lambda>(i, j) k. subtree_size h i k) Q' ks'"
      by (auto simp: list_all2_Cons1)
    have pn: "p < n" and lenQ: "length Q = Suc (length Q')" and lenQn: "length Q \<le> n"
      using less.prems(3) Cons by (simp_all add: p_def n_def)
    have "[p..<n] = p # [Suc p..<n]"
      using pn by (simp add: upt_conv_Cons)
    with less.prems(4) Cons x have j: "j = int p"
      and ids': "map snd Q' = map int [Suc p..<n]"
      by (simp_all add: p_def n_def)
    have j0: "0 \<le> j" and jn: "nat j < length (nodes T)"
      using j pn by (simp_all add: n_def)
    from k show ?thesis
    proof (cases rule: subtree_size.cases)
      case leaf
      from visit_leaf[OF la leaf(2,3,4) j0 jn, of d2f]
      obtain T1 where v: "EndObject_visit d2f h T i j = Some (T1, [])"
        and len1: "length (nodes T1) = length (nodes T)"
        and other: "\<forall>q. q \<noteq> nat j \<longrightarrow> nodes T1 ! q = nodes T ! q"
        and f1: "cleft (nodes T1 ! nat j) = -1"
          "info (nodes T1 ! nat j) = leaf_value (d2f (split_conditions h ! nat i))"
          "sum_hess (nodes T1 ! nat j) = Some (sum_hessian h ! nat i)"
        by blast
      have m': "sum_list ks' < m"
        using less.prems(2) ks leaf(1) by simp
      have l1: "length Q' \<le> length (nodes T1)"
        using len1 lenQ lenQn by (simp add: n_def)
      have p1: "length (nodes T1) - length Q' = Suc p"
        using len1 lenQ lenQn by (simp add: p_def n_def)
      have ids1: "map snd Q' = map int [length (nodes T1) - length Q' ..< length (nodes T1)]"
        using ids' p1 len1 by (simp add: n_def)
      from less.IH[OF m' rest refl l1 ids1]
      obtain T' where r: "EndObject_while d2f h T1 Q' = Some (Inr T')"
        and len': "length (nodes T1) \<le> length (nodes T')"
        and keep: "\<forall>q < Suc p. nodes T' ! q = nodes T1 ! q"
        and mir: "\<forall>(i, j) \<in> set Q'. mirrors d2f h T' i j"
        using p1 by auto
      have run: "EndObject_while d2f h T Q = Some (Inr T')"
        using Cons x v r by (subst EndObject_while.simps) simp
      have nj: "node_at T' j = nodes T1 ! nat j"
        using keep j by (simp add: node_at_def)
      have jT': "j < NumNodes T'"
        using jn j0 len1 len' by (simp add: NumNodes_def)
      note g = f1[folded nj]
      have here: "mirrors d2f h T' i j"
        by (rule mirrors.leaf[where d2f=d2f and h=h and T=T' and i=i and j=j, OF leaf(2,3) j0 jT' leaf(4) g])
      have old: "\<forall>q < length (nodes T) - length Q. nodes T' ! q = nodes T ! q"
      proof (intro allI impI)
        fix q assume "q < length (nodes T) - length Q"
        then have "q < p" by (simp add: p_def n_def)
        then have "nodes T' ! q = nodes T1 ! q" "q \<noteq> nat j"
          using keep j by simp_all
        then show "nodes T' ! q = nodes T ! q"
          using other by simp
      qed
      have "length (nodes T) \<le> length (nodes T')"
        using len1 len' by simp
      moreover have "\<forall>(i, j) \<in> set Q. mirrors d2f h T' i j"
        using here mir Cons x by simp
      ultimately show ?thesis
        using run old by blast
    next
      case (split a b)
      from visit_split[OF la split(2,3,4) j0 jn, of d2f]
      obtain T1 where v: "EndObject_visit d2f h T i j =
          Some (T1, [(left_children h ! nat i, int n), (right_children h ! nat i, int n + 1)])"
        and len1: "length (nodes T1) = n + 2"
        and other: "\<forall>q. q \<noteq> nat j \<longrightarrow> q < n \<longrightarrow> nodes T1 ! q = nodes T ! q"
        and f1: "cleft (nodes T1 ! nat j) = int n"
          "cright (nodes T1 ! nat j) = int n + 1"
          "sindex (nodes T1 ! nat j) = split_indices h ! nat i"
          "default_left_flag (nodes T1 ! nat j) = default_left h ! nat i"
          "info (nodes T1 ! nat j) = threshold (d2f (split_conditions h ! nat i))"
          "cmp (nodes T1 ! nat j) = kLT"
          "gain (nodes T1 ! nat j) = Some (loss_changes h ! nat i)"
          "sum_hess (nodes T1 ! nat j) = Some (sum_hessian h ! nat i)"
        unfolding n_def by blast
      define Q1 where "Q1 = Q' @ [(left_children h ! nat i, int n),
        (right_children h ! nat i, int n + 1)]"
      define ks1 where "ks1 = ks' @ [a, b]"
      have m': "sum_list ks1 < m"
        using less.prems(2) ks split(1) by (simp add: ks1_def)
      have all1: "list_all2 (\<lambda>(i, j) k. subtree_size h i k) Q1 ks1"
        unfolding Q1_def ks1_def using rest split(5,6)
        by (intro list_all2_appendI) simp_all
      have l1: "length Q1 \<le> length (nodes T1)"
        using len1 lenQ lenQn by (simp add: Q1_def)
      have p1: "length (nodes T1) - length Q1 = Suc p"
        using len1 lenQ lenQn by (simp add: p_def Q1_def)
      have "[Suc p..<n + 2] = [Suc p..<n] @ [n, Suc n]"
        using pn by (simp add: upt_rec[of n])
      then have ids1: "map snd Q1 = map int [length (nodes T1) - length Q1 ..< length (nodes T1)]"
        using ids' p1 len1 by (simp add: Q1_def)
      from less.IH[OF m' all1 refl l1 ids1]
      obtain T' where r: "EndObject_while d2f h T1 Q1 = Some (Inr T')"
        and len': "length (nodes T1) \<le> length (nodes T')"
        and keep: "\<forall>q < Suc p. nodes T' ! q = nodes T1 ! q"
        and mir: "\<forall>(i, j) \<in> set Q1. mirrors d2f h T' i j"
        using p1 by auto
      have run: "EndObject_while d2f h T Q = Some (Inr T')"
        using Cons x v r by (subst EndObject_while.simps) (simp add: Q1_def)
      have nj: "node_at T' j = nodes T1 ! nat j"
        using keep j by (simp add: node_at_def)
      have ml: "mirrors d2f h T' (left_children h ! nat i) (int n)"
        and mr: "mirrors d2f h T' (right_children h ! nat i) (int n + 1)"
        using mir by (simp_all add: Q1_def)
      have jT': "j < NumNodes T'"
        using jn j0 len1 len' by (simp add: NumNodes_def n_def)
      have cl: "cleft (node_at T' j) \<noteq> -1"
        using f1(1) by (simp add: nj)
      note g = f1[folded nj]
      have ml': "mirrors d2f h T' (left_children h ! nat i) (cleft (node_at T' j))"
        and mr': "mirrors d2f h T' (right_children h ! nat i) (cright (node_at T' j))"
        using ml mr by (simp_all only: g(1,2))
      have here: "mirrors d2f h T' i j"
        by (rule mirrors.split[where d2f=d2f and h=h and T=T' and i=i and j=j, OF split(2,3) j0 jT' split(4) cl g(3) g(5) g(4) g(6) g(7) g(8)
              ml' mr'])
      have old: "\<forall>q < length (nodes T) - length Q. nodes T' ! q = nodes T ! q"
      proof (intro allI impI)
        fix q assume "q < length (nodes T) - length Q"
        then have "q < p" by (simp add: p_def n_def)
        then have "nodes T' ! q = nodes T1 ! q" "q \<noteq> nat j" "q < n"
          using keep j pn by simp_all
        then show "nodes T' ! q = nodes T ! q"
          using other by simp
      qed
      have "length (nodes T) \<le> length (nodes T')"
        using len1 len' by (simp add: n_def)
      moreover have "\<forall>(i, j) \<in> set Q'. mirrors d2f h T' i j"
        using mir by (simp add: Q1_def)
      then have "\<forall>(i, j) \<in> set Q. mirrors d2f h T' i j"
        using here Cons x by simp
      ultimately show ?thesis
        using run old by blast
    qed
  qed
qed


lemma reached_mirrors:
  assumes "mirrors d2f h T 0 0"
  shows "reached h T i j \<Longrightarrow> mirrors d2f h T i j"
proof (induction rule: reached.induct)
  case root
  show ?case by (rule assms)
next
  case (left i j)
  from left.IH left.hyps(2) show ?case
    by (cases rule: mirrors.cases) (simp_all add: LeftChild_def)
next
  case (right i j)
  from right.IH right.hyps(2) show ?case
    by (cases rule: mirrors.cases) (simp_all add: RightChild_def)
qed

lemma mirrors_node:
  assumes "mirrors d2f h T i j"
  shows "0 \<le> i \<and> i < num_nodes h \<and> 0 \<le> j \<and> j < NumNodes T \<and>
     (IsLeaf T j \<longleftrightarrow> left_children h ! nat i = -1) \<and>
     (left_children h ! nat i = -1 \<longrightarrow>
        LeafValue T j = Some (d2f (split_conditions h ! nat i))) \<and>
     (left_children h ! nat i \<noteq> -1 \<longrightarrow>
        SplitIndex T j = split_indices h ! nat i \<and>
        Threshold T j = Some (d2f (split_conditions h ! nat i)) \<and>
        DefaultLeft T j = default_left h ! nat i \<and>
        ComparisonOp T j = kLT \<and>
        Gain T j = Some (loss_changes h ! nat i)) \<and>
     SumHess T j = Some (sum_hessian h ! nat i)"
  using assms
  by (cases rule: mirrors.cases)
    (simp_all add: IsLeaf_def LeafValue_def SplitIndex_def Threshold_def DefaultLeft_def
      ComparisonOp_def Gain_def SumHess_def)

lemma EndObject_mirrors:
  assumes la: "lengths_agree h" and wf: "well_formed_at h 0"
  shows "\<exists>T. RegTreeHandler_EndObject d2f h = Inr T \<and> mirrors d2f h T 0 0"
proof -
  from well_formed_size[OF wf] obtain k where k: "subtree_size h 0 k" ..
  have 1: "list_all2 (\<lambda>(i, j) k. subtree_size h i k) [(0, 0)] [k]"
    using k by simp
  have 2: "length [(0::int, 0::int)] \<le> length (nodes (Tree_Init :: ('a, 'b) Tree))"
    by (simp add: Tree_Init_def)
  have 3: "map snd [(0::int, 0::int)] =
      map int [length (nodes (Tree_Init :: ('a, 'b) Tree)) - length [(0::int, 0::int)] ..<
        length (nodes (Tree_Init :: ('a, 'b) Tree))]"
    by (simp add: Tree_Init_def)
  from while_correct[OF la 1 refl 2 3, of d2f]
  obtain T where "EndObject_while d2f h Tree_Init [(0, 0)] = Some (Inr T)"
    and "mirrors d2f h T 0 0"
    by auto
  moreover have "RegTreeHandler_EndObject d2f h =
      (case EndObject_while d2f h Tree_Init [(0, 0)] of None \<Rightarrow> Inl Nontermination
       | Some r \<Rightarrow> r)"
    using la by (simp add: RegTreeHandler_EndObject_def lengths_agree_def)
  ultimately show ?thesis by simp
qed

text \<open>
  Claim C1. When the ten arrays all have length \<^verbatim>\<open>num_nodes\<close> and encode a well-formed
  binary tree rooted at old ID 0, \<^verbatim>\<open>RegTreeHandler::EndObject\<close> returns a tree in which
  every node reached for an old ID \<open>i\<close> is a leaf with value \<^verbatim>\<open>split_conditions[i]\<close> exactly
  when \<^verbatim>\<open>left_children[i] == -1\<close>, and otherwise a split on \<^verbatim>\<open>split_indices[i]\<close> with
  threshold \<^verbatim>\<open>split_conditions[i]\<close>, default direction \<^verbatim>\<open>default_left[i]\<close>, operator
  \<^verbatim>\<open>kLT\<close> and gain \<^verbatim>\<open>loss_changes[i]\<close>, whose children are reached for
  \<^verbatim>\<open>left_children[i]\<close> and \<^verbatim>\<open>right_children[i]\<close>; in both cases the sum of hessians is
  \<^verbatim>\<open>sum_hessian[i]\<close>. The values pass through the conversion to \<^verbatim>\<open>float\<close> of the calls.
\<close>

theorem RegTreeHandler_EndObject_reconstructs:
  assumes "lengths_agree h" and "well_formed_at h 0"
  shows "\<exists>T. RegTreeHandler_EndObject d2f h = Inr T \<and>
    (\<forall>i j. reached h T i j \<longrightarrow>
       0 \<le> i \<and> i < num_nodes h \<and> 0 \<le> j \<and> j < NumNodes T \<and>
       (IsLeaf T j \<longleftrightarrow> left_children h ! nat i = -1) \<and>
       (left_children h ! nat i = -1 \<longrightarrow>
          LeafValue T j = Some (d2f (split_conditions h ! nat i))) \<and>
       (left_children h ! nat i \<noteq> -1 \<longrightarrow>
          SplitIndex T j = split_indices h ! nat i \<and>
          Threshold T j = Some (d2f (split_conditions h ! nat i)) \<and>
          DefaultLeft T j = default_left h ! nat i \<and>
          ComparisonOp T j = kLT \<and>
          Gain T j = Some (loss_changes h ! nat i) \<and>
          reached h T (left_children h ! nat i) (LeftChild T j) \<and>
          reached h T (right_children h ! nat i) (RightChild T j)) \<and>
       SumHess T j = Some (sum_hessian h ! nat i))"
proof -
  from EndObject_mirrors[OF assms, of d2f]
  obtain T where run: "RegTreeHandler_EndObject d2f h = Inr T" and m: "mirrors d2f h T 0 0"
    by blast
  have "0 \<le> i \<and> i < num_nodes h \<and> 0 \<le> j \<and> j < NumNodes T \<and>
       (IsLeaf T j \<longleftrightarrow> left_children h ! nat i = -1) \<and>
       (left_children h ! nat i = -1 \<longrightarrow>
          LeafValue T j = Some (d2f (split_conditions h ! nat i))) \<and>
       (left_children h ! nat i \<noteq> -1 \<longrightarrow>
          SplitIndex T j = split_indices h ! nat i \<and>
          Threshold T j = Some (d2f (split_conditions h ! nat i)) \<and>
          DefaultLeft T j = default_left h ! nat i \<and>
          ComparisonOp T j = kLT \<and>
          Gain T j = Some (loss_changes h ! nat i) \<and>
          reached h T (left_children h ! nat i) (LeftChild T j) \<and>
          reached h T (right_children h ! nat i) (RightChild T j)) \<and>
       SumHess T j = Some (sum_hessian h ! nat i)"
    if r: "reached h T i j" for i j
    using mirrors_node[OF reached_mirrors[OF m r]] reached.left[OF r] reached.right[OF r]
    by blast
  with run show ?thesis by blast
qed

text \<open>The theorem on the tree of three nodes: a root with two leaves.\<close>

theorem RegTreeHandler_EndObject_reconstructs_witness:
  "lengths_agree three_nodes \<and> well_formed_at three_nodes 0 \<and>
   (\<exists>T. RegTreeHandler_EndObject (\<lambda>x. x) three_nodes = Inr T \<and>
      \<not> IsLeaf T 0 \<and> SplitIndex T 0 = 3 \<and> Threshold T 0 = Some 7 \<and> DefaultLeft T 0 \<and>
      ComparisonOp T 0 = kLT \<and> Gain T 0 = Some 5 \<and> SumHess T 0 = Some 10 \<and>
      IsLeaf T (LeftChild T 0) \<and> LeafValue T (LeftChild T 0) = Some 1 \<and>
      SumHess T (LeftChild T 0) = Some 4 \<and>
      IsLeaf T (RightChild T 0) \<and> LeafValue T (RightChild T 0) = Some 2 \<and>
      SumHess T (RightChild T 0) = Some 6)"
proof -
  have la: "lengths_agree three_nodes"
    by (simp add: lengths_agree_def three_nodes_def)
  have l1: "well_formed_at three_nodes 1" and l2: "well_formed_at three_nodes 2"
    by (rule well_formed_at.leaf; simp add: three_nodes_def)+
  have wf: "well_formed_at three_nodes 0"
    using l1 l2 by - (rule well_formed_at.split, simp_all add: three_nodes_def)
  from RegTreeHandler_EndObject_reconstructs[OF la wf, of "\<lambda>x. x"]
  obtain T where run: "RegTreeHandler_EndObject (\<lambda>x. x) three_nodes = Inr T"
    and all: "\<And>i j. reached three_nodes T i j \<Longrightarrow>
       (IsLeaf T j \<longleftrightarrow> left_children three_nodes ! nat i = -1) \<and>
       (left_children three_nodes ! nat i = -1 \<longrightarrow>
          LeafValue T j = Some (split_conditions three_nodes ! nat i)) \<and>
       (left_children three_nodes ! nat i \<noteq> -1 \<longrightarrow>
          SplitIndex T j = split_indices three_nodes ! nat i \<and>
          Threshold T j = Some (split_conditions three_nodes ! nat i) \<and>
          DefaultLeft T j = default_left three_nodes ! nat i \<and>
          ComparisonOp T j = kLT \<and>
          Gain T j = Some (loss_changes three_nodes ! nat i)) \<and>
       SumHess T j = Some (sum_hessian three_nodes ! nat i)"
    by blast
  have r0: "reached three_nodes T 0 0" by (rule reached.root)
  have r1: "reached three_nodes T 1 (LeftChild T 0)"
    using reached.left[OF r0] by (simp add: three_nodes_def)
  have r2: "reached three_nodes T 2 (RightChild T 0)"
    using reached.right[OF r0] by (simp add: three_nodes_def)
  show ?thesis
    using la wf run all[OF r0] all[OF r1] all[OF r2]
    by (simp add: three_nodes_def)
qed

lemmas handler_defs = DelegatedHandler_event_def
  RootHandler_event_def XGBoostModelHandler_event_def XGBoostModelHandler_StartArray_def
  XGBoostModelHandler_StartObject_def XGBoostModelHandler_EndObject_def
  LearnerHandler_event_def LearnerHandler_StartObject_def LearnerHandler_EndObject_def
  LearnerParamHandler_event_def LearnerParamHandler_String_def
  ObjectiveHandler_event_def ObjectiveHandler_StartObject_def ObjectiveHandler_String_def
  GradientBoosterHandler_event_def GradientBoosterHandler_String_def
  GradientBoosterHandler_StartObject_def
  GBTreeModelHandler_event_def GBTreeModelHandler_StartArray_def
  GBTreeModelHandler_StartObject_def
  RegTreeHandler_event_def RegTreeHandler_StartArray_def RegTreeHandler_StartObject_def
  RegTreeHandler_Uint_def
  TreeParamHandler_event_def TreeParamHandler_String_def
  ArrayHandler_event_def IgnoreHandler_event_def BaseHandler_event_def
  push_handler_def pop_handler_def push_delegate_def pop_delegate_def set_cur_key_def
  accept_def accept_push_def push_key_handler_def check_cur_key_def assign_value_def
  keep_if_def
  output_RegTree_def output_version_def output_objective_def output_Model_def
  push_back_double_def push_back_int_def int_of_unsigned_def new_RegTreeHandler_def

lemmas example_defs = example_externals_def example_atoi_def DelegatedHandler_create_def

lemma Reader_Parse_append:
  "Reader_Parse x (es @ es') st =
     (case Reader_Parse x es st of Inl err \<Rightarrow> Inl err | Inr st' \<Rightarrow> Reader_Parse x es' st')"
  by (induction es arbitrary: st) (simp_all split: sum.splits)

lemma Reader_Parse_rejected:
  assumes "Reader_Parse x pre st0 = Inr st" and "DelegatedHandler_event x e st = Inl err"
  shows "Reader_Parse x (pre @ e # post) st0 = Inl err"
  using assms by (simp add: Reader_Parse_append)

lemma ParseStream_rejected:
  assumes "Reader_Parse x pre (DelegatedHandler_create x) = Inr st"
    and "DelegatedHandler_event x e st = Inl (Rejected logged)"
  shows "ParseStream x (pre @ e # post) =
    Inl (Fatal (logged @ [''Parsing error'',
      ''Provided JSON could not be parsed as XGBoost model'']))"
  using Reader_Parse_rejected[OF assms] by (simp add: ParseStream_def)

lemma example_externals_0: "example_externals\<lparr>new_num_nodes := 0\<rparr> = example_externals"
  by (simp add: example_externals_def)

lemma run_doc_start_any:
  "Reader_Parse (example_externals\<lparr>new_num_nodes := n\<rparr>) doc_start (DelegatedHandler_create (example_externals\<lparr>new_num_nodes := n\<rparr>)) =
     Inr state_start"
  by (simp add: doc_start_def state_start_def handler_defs example_defs)

lemmas run_doc_start = run_doc_start_any[of 0, unfolded example_externals_0]

lemma run_doc_model_any:
  "Reader_Parse (example_externals\<lparr>new_num_nodes := n\<rparr>) doc_model state_start = Inr state_model"
  by (simp add: doc_model_def state_start_def state_model_def handler_defs example_defs)

lemmas run_doc_model = run_doc_model_any[of 0, unfolded example_externals_0]

lemma run_tree_start_any:
  "Reader_Parse (example_externals\<lparr>new_num_nodes := n\<rparr>) tree_start state_model = Inr (state_tree ''split_conditions'' [])"
  by (simp add: tree_start_def state_start_def state_model_def state_tree_def three_nodes_def
      handler_defs example_defs)

lemmas run_tree_start = run_tree_start_any[of 0, unfolded example_externals_0]

lemma run_tree_rest_any:
  "Reader_Parse (example_externals\<lparr>new_num_nodes := n\<rparr>) tree_rest (state_tree ''split_conditions'' []) =
     Inr (state_tree ''id'' [True, False, False])"
  by (simp add: tree_rest_def state_start_def state_model_def state_tree_def three_nodes_def
      handler_defs example_defs)

lemmas run_tree_rest = run_tree_rest_any[of 0, unfolded example_externals_0]


lemma EndObject_rejects:
  "\<not> lengths_agree h \<Longrightarrow> RegTreeHandler_EndObject d2f h = Inl (Rejected [])"
  unfolding lengths_agree_def RegTreeHandler_EndObject_def Let_def by (simp only: de_Morgan_conj if_True)

text \<open>
  Claim C2. When the tree object closes and one of the ten arrays has a length other than
  \<^verbatim>\<open>num_nodes\<close>, \<^verbatim>\<open>RegTreeHandler::EndObject\<close> returns \<^verbatim>\<open>false\<close>, and the load ends in the
  fatal error of \<^verbatim>\<open>ParseStream\<close>: no tree and no model is returned.
\<close>

theorem RegTreeHandler_EndObject_length_mismatch:
  assumes "Reader_Parse x pre (DelegatedHandler_create x) = Inr st"
    and "delegates st = (cur_key, RegTreeHandler h) # ds"
    and "\<not> lengths_agree h"
  shows "RegTreeHandler_EndObject (to_float x) h = Inl (Rejected []) \<and>
    DelegatedHandler_event x (EndObject memberCount) st = Inl (Rejected []) \<and>
    ParseStream x (pre @ EndObject memberCount # post) =
      Inl (Fatal [''Parsing error'', ''Provided JSON could not be parsed as XGBoost model''])"
proof -
  have 1: "RegTreeHandler_EndObject (to_float x) h = Inl (Rejected [])"
    using assms(3) by (rule EndObject_rejects)
  have 2: "DelegatedHandler_event x (EndObject memberCount) st = Inl (Rejected [])"
    using assms(2) 1 by (simp add: DelegatedHandler_event_def RegTreeHandler_event_def)
  show ?thesis
    using 1 2 ParseStream_rejected[OF assms(1) 2] by simp
qed

text \<open>The example document with the array \<^verbatim>\<open>default_left\<close> one element short.\<close>

theorem RegTreeHandler_EndObject_length_mismatch_witness:
  "Reader_Parse example_externals
     (doc_start @ doc_model @ tree_start @
        [Key ''default_left'', StartArray, Bool True, Bool False, EndArray 2])
     (DelegatedHandler_create example_externals) =
     Inr (state_tree ''default_left'' [True, False]) \<and>
   length (default_left (three_nodes\<lparr>default_left := [True, False]\<rparr>)) = 2 \<and>
   num_nodes (three_nodes\<lparr>default_left := [True, False]\<rparr>) = 3 \<and>
   \<not> lengths_agree (three_nodes\<lparr>default_left := [True, False]\<rparr>) \<and>
   ParseStream example_externals
     ((doc_start @ doc_model @ tree_start @
        [Key ''default_left'', StartArray, Bool True, Bool False, EndArray 2]) @
      EndObject 11 # doc_tail @ [EndObject 2]) =
     Inl (Fatal [''Parsing error'', ''Provided JSON could not be parsed as XGBoost model''])"
proof -
  have "Reader_Parse example_externals
      [Key ''default_left'', StartArray, Bool True, Bool False, EndArray 2]
      (state_tree ''split_conditions'' []) = Inr (state_tree ''default_left'' [True, False])"
    by (simp add: state_start_def state_model_def state_tree_def three_nodes_def
        handler_defs example_defs)
  then have run: "Reader_Parse example_externals
     (doc_start @ doc_model @ tree_start @
        [Key ''default_left'', StartArray, Bool True, Bool False, EndArray 2])
     (DelegatedHandler_create example_externals) =
     Inr (state_tree ''default_left'' [True, False])"
    by (simp add: Reader_Parse_append run_doc_start run_doc_model run_tree_start)
  have top: "delegates (state_tree ''default_left'' [True, False]) =
      (''default_left'', RegTreeHandler (three_nodes\<lparr>default_left := [True, False]\<rparr>)) #
      delegates state_model"
    by (simp add: state_tree_def)
  have bad: "\<not> lengths_agree (three_nodes\<lparr>default_left := [True, False]\<rparr>)"
    by (simp add: lengths_agree_def three_nodes_def)
  show ?thesis
    using run bad RegTreeHandler_EndObject_length_mismatch[OF run top bad, of 11
        "doc_tail @ [EndObject 2]"]
    by (simp add: three_nodes_def)
qed

text \<open>
  Claim C4, as stated, fails: a gradient-booster object whose name is not \<^verbatim>\<open>gbtree\<close> need not
  be rejected by \<^verbatim>\<open>GradientBoosterHandler::String\<close>, nor with the unsupported-booster line.
  In \<^verbatim>\<open>{"model": {"weights": [1]}, "name": "gblinear"}\<close> the member \<^verbatim>\<open>model\<close> comes first,
  \<^verbatim>\<open>GradientBoosterHandler::StartObject\<close> pushes the handler of tree models, and
  \<^verbatim>\<open>GBTreeModelHandler::StartArray\<close> returns \<^verbatim>\<open>false\<close> at the key \<^verbatim>\<open>weights\<close> with nothing
  logged. The load fails before the name is read.
\<close>

theorem GradientBoosterHandler_name_not_reached:
  "ParseStream example_externals
     [StartObject,
      Key ''version'', StartArray, Uint 1, Uint 0, Uint 0, EndArray 3,
      Key ''learner'', StartObject,
      Key ''gradient_booster'', StartObject,
      Key ''model'', StartObject, Key ''weights'', StartArray, Double 1, EndArray 1,
      EndObject 1,
      Key ''name'', String ''gblinear'',
      EndObject 2, EndObject 1, EndObject 2] =
     Inl (Fatal [''Parsing error'', ''Provided JSON could not be parsed as XGBoost model''])"
  by (simp add: ParseStream_def handler_defs example_defs)


lemmas tree_defs = RegTreeHandler_EndObject_def EndObject_while.simps EndObject_visit_def
  vector_at_def Tree_Init_def Node_Init_def update_node_def AddChilds_def SetLeaf_def
  SetNumericalSplit_def SetGain_def SetSumHess_def LeftChild_def RightChild_def node_at_def

lemmas state_defs = state_start_def state_model_def state_tree_def state_trees_def
  state_end_def state_param_def three_nodes_def example_tree_def

lemma EndObject_three_nodes:
  "RegTreeHandler_EndObject (\<lambda>x. x) three_nodes = Inr example_tree"
  by (simp add: three_nodes_def example_tree_def tree_defs Let_def)

lemma run_tree_end_any:
  "DelegatedHandler_event (example_externals\<lparr>new_num_nodes := n\<rparr>) (EndObject 12) (state_tree ''id'' [True, False, False])
     = Inr state_trees"
proof -
  have "three_nodes\<lparr>default_left := [True, False, False]\<rparr> = three_nodes"
    by (simp add: three_nodes_def)
  then show ?thesis
    by (simp add: state_tree_def state_trees_def DelegatedHandler_event_def
        RegTreeHandler_event_def example_externals_def EndObject_three_nodes pop_handler_def
        pop_delegate_def output_Model_def)
qed

lemmas run_tree_end = run_tree_end_any[of 0, unfolded example_externals_0]

lemma run_doc_tail_any:
  "Reader_Parse (example_externals\<lparr>new_num_nodes := n\<rparr>) doc_tail state_trees = Inr state_end"
  by (simp add: doc_tail_def state_defs handler_defs example_defs)

lemmas run_doc_tail = run_doc_tail_any[of 0, unfolded example_externals_0]

lemma run_example_document_any:
  "Reader_Parse (example_externals\<lparr>new_num_nodes := n\<rparr>)
     (doc_start @ doc_model @ tree_start @ tree_rest @ [EndObject 12] @ doc_tail)
     (DelegatedHandler_create (example_externals\<lparr>new_num_nodes := n\<rparr>)) = Inr state_end"
  by (simp add: Reader_Parse_append run_doc_start_any run_doc_model_any run_tree_start_any run_tree_rest_any
      run_tree_end_any run_doc_tail_any)

lemmas run_example_document = run_example_document_any[of 0, unfolded example_externals_0]

lemma parse_example_document_any:
  "ParseStream (example_externals\<lparr>new_num_nodes := n\<rparr>) example_document = Inr example_model"
proof -
  have "Reader_Parse (example_externals\<lparr>new_num_nodes := n\<rparr>) [EndObject 2] state_end =
      Inr \<lparr>delegates = [([], RootHandler)], result = example_model\<rparr>"
    by (simp add: state_defs example_model_def handler_defs example_defs vector_at_def)
  with run_example_document_any[of n]
  have "Reader_Parse (example_externals\<lparr>new_num_nodes := n\<rparr>)
      ((doc_start @ doc_model @ tree_start @ tree_rest @ [EndObject 12] @ doc_tail) @
        [EndObject 2])
      (DelegatedHandler_create (example_externals\<lparr>new_num_nodes := n\<rparr>)) =
      Inr \<lparr>delegates = [([], RootHandler)], result = example_model\<rparr>"
    by (subst Reader_Parse_append) simp
  then show ?thesis
    by (simp add: ParseStream_def example_document_def)
qed

lemma while_visit_cong_le:
  assumes run: "EndObject_while d2f h T Q = Some r"
    and eq: "\<And>T i j. EndObject_visit d2f h T i j = EndObject_visit d2f h' T i j"
  shows "EndObject_while d2f h' T Q = Some r"
  using run eq
proof (induction d2f h T Q r
    rule: EndObject_while.raw_induct[rotated 1, consumes 1, case_names 1])
  case (1 w d2f h T Q r)
  note eq = 1(3)
  show ?case
  proof (cases Q)
    case Nil
    with 1(2) show ?thesis by (subst EndObject_while.simps) simp
  next
    case (Cons p Q')
    obtain i j where p: "p = (i, j)" by (cases p)
    show ?thesis
    proof (cases "EndObject_visit d2f h T i j")
      case None
      with 1(2) Cons p eq show ?thesis by (subst EndObject_while.simps) simp
    next
      case (Some a)
      obtain T1 pushed where a: "a = (T1, pushed)" by (cases a)
      from 1(2) Cons p Some a have "w d2f h T1 (Q' @ pushed) = Some r" by simp
      then have "EndObject_while d2f h' T1 (Q' @ pushed) = Some r"
        using eq by (rule 1(1))
      with Cons p Some a eq show ?thesis by (subst EndObject_while.simps) simp
    qed
  qed
qed

lemma while_visit_cong:
  assumes eq: "\<And>T i j. EndObject_visit d2f h T i j = EndObject_visit d2f h' T i j"
  shows "EndObject_while d2f h T Q = EndObject_while d2f h' T Q"
proof (cases "EndObject_while d2f h T Q")
  case (Some r)
  then show ?thesis using while_visit_cong_le[OF Some eq] by simp
next
  case None
  show ?thesis
  proof (cases "EndObject_while d2f h' T Q")
    case None
    with \<open>EndObject_while d2f h T Q = None\<close> show ?thesis by simp
  next
    case (Some r)
    from while_visit_cong_le[OF Some eq[symmetric]] None show ?thesis by simp
  qed
qed

text \<open>
  Claim C8. The result of \<^verbatim>\<open>RegTreeHandler::EndObject\<close> does not depend on the values in
  \<^verbatim>\<open>base_weights\<close> and \<^verbatim>\<open>leaf_child_counts\<close>, only on their lengths.
\<close>

theorem RegTreeHandler_EndObject_unused_arrays:
  assumes "length bw = length (base_weights h)"
    and "length lcc = length (leaf_child_counts h)"
  shows "RegTreeHandler_EndObject d2f (h\<lparr>base_weights := bw, leaf_child_counts := lcc\<rparr>) =
    RegTreeHandler_EndObject d2f h"
proof -
  have "EndObject_while d2f (h\<lparr>base_weights := bw, leaf_child_counts := lcc\<rparr>) T Q =
      EndObject_while d2f h T Q" for T Q
    by (rule while_visit_cong) (simp add: EndObject_visit_def Let_def cong: if_cong)
  with assms show ?thesis
    by (simp add: RegTreeHandler_EndObject_def)
qed

text \<open>The tree of three nodes with other values in the two arrays.\<close>

theorem RegTreeHandler_EndObject_unused_arrays_witness:
  "length [1, 2, 3 :: int] = length (base_weights three_nodes) \<and>
   length [9, 9, 9 :: int] = length (leaf_child_counts three_nodes) \<and>
   RegTreeHandler_EndObject (\<lambda>x. x)
     (three_nodes\<lparr>base_weights := [1, 2, 3], leaf_child_counts := [9, 9, 9]\<rparr>) =
   (RegTreeHandler_EndObject (\<lambda>x. x) three_nodes :: error + (int, int) Tree)"
proof -
  have 1: "length [1, 2, 3 :: int] = length (base_weights three_nodes)"
    and 2: "length [9, 9, 9 :: int] = length (leaf_child_counts three_nodes)"
    by (simp_all add: three_nodes_def)
  show ?thesis
    using 1 2 RegTreeHandler_EndObject_unused_arrays[OF 1 2, of "\<lambda>x. x"] by simp
qed

text \<open>
  Claim C5, as stated, fails: a model object with exactly the members \<^verbatim>\<open>version\<close> and
  \<^verbatim>\<open>learner\<close> whose version array is empty does not succeed, because
  \<^verbatim>\<open>XGBoostModelHandler::EndObject\<close> reads \<^verbatim>\<open>version[0]\<close> outside the vector.
\<close>

theorem XGBoostModelHandler_EndObject_empty_version:
  "ParseStream example_externals
     [StartObject, Key ''version'', StartArray, EndArray 0,
      Key ''learner'', StartObject, EndObject 0, EndObject 2] = Inl UndefinedBehaviour"
  by (simp add: ParseStream_def handler_defs example_defs vector_at_def)

text \<open>
  Claim C5, amended. When the model object closes, a member count other than 2 is rejected
  and the load ends in the fatal error of \<^verbatim>\<open>ParseStream\<close>; with a member count of 2 and a
  version sequence that is not empty the handler succeeds, pops itself, and the load returns
  the model.
\<close>

theorem XGBoostModelHandler_EndObject_member_count:
  assumes "Reader_Parse x pre (DelegatedHandler_create x) = Inr st"
    and "delegates st = (cur_key, XGBoostModelHandler version) # ds"
  shows "(memberCount \<noteq> 2 \<longrightarrow>
       XGBoostModelHandler_EndObject x version memberCount (result st) = Inl (Rejected []) \<and>
       DelegatedHandler_event x (EndObject memberCount) st = Inl (Rejected []) \<and>
       ParseStream x (pre @ EndObject memberCount # post) =
         Inl (Fatal [''Parsing error'',
           ''Provided JSON could not be parsed as XGBoost model''])) \<and>
     (memberCount = 2 \<and> version \<noteq> [] \<longrightarrow>
       (\<exists>m. XGBoostModelHandler_EndObject x version memberCount (result st) = Inr m \<and>
            DelegatedHandler_event x (EndObject memberCount) st =
              Inr \<lparr>delegates = ds, result = m\<rparr> \<and>
            ParseStream x (pre @ [EndObject memberCount]) = Inr m))"
proof (intro conjI impI)
  assume n: "memberCount \<noteq> 2"
  then show 1: "XGBoostModelHandler_EndObject x version memberCount (result st) = Inl (Rejected [])"
    by (simp add: XGBoostModelHandler_EndObject_def)
  then show 2: "DelegatedHandler_event x (EndObject memberCount) st = Inl (Rejected [])"
    using assms(2) by (simp add: DelegatedHandler_event_def XGBoostModelHandler_event_def)
  show "ParseStream x (pre @ EndObject memberCount # post) =
      Inl (Fatal [''Parsing error'', ''Provided JSON could not be parsed as XGBoost model''])"
    using ParseStream_rejected[OF assms(1) 2] by simp
next
  assume "memberCount = 2 \<and> version \<noteq> []"
  then have n: "memberCount = 2" and v: "version \<noteq> []" by simp_all
  from v obtain v0 vs where vv: "version = v0 # vs" by (cases version) auto
  then have "\<exists>m. XGBoostModelHandler_EndObject x version memberCount (result st) = Inr m"
    using n by (cases "1 \<le> v0") (simp_all add: XGBoostModelHandler_EndObject_def vector_at_def)
  then obtain m where 1: "XGBoostModelHandler_EndObject x version memberCount (result st) = Inr m"
    by blast
  have 2: "DelegatedHandler_event x (EndObject memberCount) st = Inr \<lparr>delegates = ds, result = m\<rparr>"
    using assms(2) 1
    by (simp add: DelegatedHandler_event_def XGBoostModelHandler_event_def pop_handler_def
        pop_delegate_def output_Model_def)
  have 3: "ParseStream x (pre @ [EndObject memberCount]) = Inr m"
    using assms(1) 2 by (simp add: ParseStream_def Reader_Parse_append)
  show "\<exists>m. XGBoostModelHandler_EndObject x version memberCount (result st) = Inr m \<and>
            DelegatedHandler_event x (EndObject memberCount) st =
              Inr \<lparr>delegates = ds, result = m\<rparr> \<and>
            ParseStream x (pre @ [EndObject memberCount]) = Inr m"
    using 1 2 3 by blast
qed

text \<open>The example document, closed with a member count of 3 and with a member count of 2.\<close>

theorem XGBoostModelHandler_EndObject_member_count_witness:
  "Reader_Parse example_externals
     (doc_start @ doc_model @ tree_start @ tree_rest @ [EndObject 12] @ doc_tail)
     (DelegatedHandler_create example_externals) = Inr state_end \<and>
   delegates state_end = (''learner'', XGBoostModelHandler [1, 0, 0]) # [([], RootHandler)] \<and>
   (3::nat) \<noteq> 2 \<and> [1, 0, 0] \<noteq> ([] :: nat list) \<and>
   ParseStream example_externals
     ((doc_start @ doc_model @ tree_start @ tree_rest @ [EndObject 12] @ doc_tail) @
      EndObject 3 # []) =
     Inl (Fatal [''Parsing error'', ''Provided JSON could not be parsed as XGBoost model'']) \<and>
   (\<exists>m. ParseStream example_externals example_document = Inr m)"
proof -
  have top: "delegates state_end =
      (''learner'', XGBoostModelHandler [1, 0, 0]) # [([], RootHandler)]"
    by (simp add: state_end_def)
  note t = XGBoostModelHandler_EndObject_member_count[OF run_example_document top]
  have "ParseStream example_externals
     ((doc_start @ doc_model @ tree_start @ tree_rest @ [EndObject 12] @ doc_tail) @
      EndObject 3 # []) =
     Inl (Fatal [''Parsing error'', ''Provided JSON could not be parsed as XGBoost model''])"
    using t[of 3 "[]"] by simp
  moreover have "\<exists>m. ParseStream example_externals example_document = Inr m"
    using t[of 2 "[]"] by (simp add: example_document_def) blast
  ultimately show ?thesis
    using run_example_document top by simp
qed

text \<open>
  Claim C10. \<^verbatim>\<open>XGBoostModelHandler::EndObject\<close> reads \<^verbatim>\<open>version[0]\<close> with no check: the
  lookup gives a value exactly when the version sequence is not empty, and with a member
  count of 2 the call is undefined exactly when it is empty.
\<close>

theorem XGBoostModelHandler_EndObject_version_lookup:
  "(vector_at version 0 = None \<longleftrightarrow> version = []) \<and>
   (XGBoostModelHandler_EndObject x version 2 output = Inl UndefinedBehaviour \<longleftrightarrow>
      version = []) \<and>
   ((\<exists>m. XGBoostModelHandler_EndObject x version 2 output = Inr m) \<longleftrightarrow> version \<noteq> [])"
  by (cases version) (simp_all add: XGBoostModelHandler_EndObject_def vector_at_def Let_def)

text \<open>A document with two members and no version array reaches the read of \<^verbatim>\<open>version[0]\<close>.\<close>

lemma version_absent_undefined:
  "ParseStream example_externals
     [StartObject, Key ''learner'', StartObject, EndObject 0,
      Key ''learner'', StartObject, EndObject 0, EndObject 2] = Inl UndefinedBehaviour"
  by (simp add: ParseStream_def handler_defs example_defs vector_at_def)

text \<open>
  Claim C7. The string under the key \<^verbatim>\<open>num_class\<close> of the learner parameters is stored as
  the number of output groups \<open>max (atoi str) 1\<close>, which is at least 1.
\<close>

theorem LearnerParamHandler_String_num_class:
  assumes "delegates st = (''num_class'', LearnerParamHandler) # ds"
  shows "LearnerParamHandler_String x ''num_class'' str (result st) =
      Some ((result st)\<lparr>num_output_group := max (atoi x str) 1\<rparr>) \<and>
    (\<exists>st'. DelegatedHandler_event x (String str) st = Inr st' \<and>
       num_output_group (result st') = max (atoi x str) 1 \<and>
       1 \<le> num_output_group (result st'))"
proof -
  have 1: "LearnerParamHandler_String x ''num_class'' str (result st) =
      Some ((result st)\<lparr>num_output_group := max (atoi x str) 1\<rparr>)"
    by (simp add: LearnerParamHandler_String_def assign_value_def check_cur_key_def)
  then have "DelegatedHandler_event x (String str) st =
      Inr (output_Model (\<lambda>_. (result st)\<lparr>num_output_group := max (atoi x str) 1\<rparr>) st)"
    using assms by (simp add: DelegatedHandler_event_def LearnerParamHandler_event_def)
  with 1 show ?thesis by (simp add: output_Model_def)
qed

text \<open>A negative class count is stored as 1.\<close>

theorem LearnerParamHandler_String_num_class_witness:
  "delegates \<lparr>delegates = [(''num_class'', LearnerParamHandler)],
      result = Model_Create example_externals\<rparr> =
     (''num_class'', LearnerParamHandler) # [] \<and>
   atoi example_externals ''-3'' = -3 \<and>
   (\<exists>st'. DelegatedHandler_event example_externals (String ''-3'')
        \<lparr>delegates = [(''num_class'', LearnerParamHandler)],
         result = Model_Create example_externals\<rparr> = Inr st' \<and>
      num_output_group (result st') = 1)"
proof -
  have top: "delegates \<lparr>delegates = [(''num_class'', LearnerParamHandler)],
      result = Model_Create example_externals\<rparr> = (''num_class'', LearnerParamHandler) # []"
    by simp
  have a: "atoi example_externals ''-3'' = -3"
    by (simp add: example_externals_def example_atoi_def)
  show ?thesis
    using top a LearnerParamHandler_String_num_class[OF top, of example_externals "''-3''"]
    by auto
qed

lemma TreeParamHandler_String_cases:
  "TreeParamHandler_String x cur_key str output =
     (if cur_key = ''num_feature'' then Some output
      else if cur_key = ''num_nodes'' then Some (atoi x str)
      else if cur_key = ''size_leaf_vector'' \<or> cur_key = ''num_deleted'' then Some output
      else None)"
  by (simp add: TreeParamHandler_String_def keep_if_def assign_value_def check_cur_key_def)

text \<open>
  Claim C6. For a string member of \<^verbatim>\<open>tree_param\<close>: the key \<^verbatim>\<open>num_nodes\<close> assigns the parsed
  count to the tree handler's \<^verbatim>\<open>num_nodes\<close>; the keys \<^verbatim>\<open>num_feature\<close>,
  \<^verbatim>\<open>size_leaf_vector\<close> and \<^verbatim>\<open>num_deleted\<close> are accepted and change nothing; every other key
  is rejected and the load ends in the fatal error of \<^verbatim>\<open>ParseStream\<close>.
\<close>

theorem TreeParamHandler_String_keys:
  assumes "Reader_Parse x pre (DelegatedHandler_create x) = Inr st"
    and "delegates st = (cur_key, TreeParamHandler) # (k, RegTreeHandler h) # ds"
  shows "(cur_key = ''num_nodes'' \<longrightarrow>
       TreeParamHandler_String x cur_key str (num_nodes h) = Some (atoi x str) \<and>
       DelegatedHandler_event x (String str) st =
         Inr (st\<lparr>delegates := (cur_key, TreeParamHandler) #
           (k, RegTreeHandler (h\<lparr>num_nodes := atoi x str\<rparr>)) # ds\<rparr>)) \<and>
     (cur_key \<in> {''num_feature'', ''size_leaf_vector'', ''num_deleted''} \<longrightarrow>
       TreeParamHandler_String x cur_key str (num_nodes h) = Some (num_nodes h) \<and>
       DelegatedHandler_event x (String str) st = Inr st) \<and>
     (cur_key \<notin> {''num_nodes'', ''num_feature'', ''size_leaf_vector'', ''num_deleted''} \<longrightarrow>
       TreeParamHandler_String x cur_key str (num_nodes h) = None \<and>
       DelegatedHandler_event x (String str) st = Inl (Rejected []) \<and>
       ParseStream x (pre @ String str # post) =
         Inl (Fatal [''Parsing error'',
           ''Provided JSON could not be parsed as XGBoost model'']))"
proof (intro conjI impI)
  assume c: "cur_key = ''num_nodes''"
  then show "TreeParamHandler_String x cur_key str (num_nodes h) = Some (atoi x str)"
    by (simp add: TreeParamHandler_String_cases)
  then show "DelegatedHandler_event x (String str) st =
      Inr (st\<lparr>delegates := (cur_key, TreeParamHandler) #
        (k, RegTreeHandler (h\<lparr>num_nodes := atoi x str\<rparr>)) # ds\<rparr>)"
    using assms(2)
    by (simp add: DelegatedHandler_event_def TreeParamHandler_event_def output_RegTree_def)
next
  assume c: "cur_key \<in> {''num_feature'', ''size_leaf_vector'', ''num_deleted''}"
  then show 1: "TreeParamHandler_String x cur_key str (num_nodes h) = Some (num_nodes h)"
    by (auto simp: TreeParamHandler_String_cases)
  have "st\<lparr>delegates := (cur_key, TreeParamHandler) #
      (k, RegTreeHandler (h\<lparr>num_nodes := num_nodes h\<rparr>)) # ds\<rparr> = st"
    using assms(2) by simp
  then show "DelegatedHandler_event x (String str) st = Inr st"
    using assms(2) 1
    by (simp add: DelegatedHandler_event_def TreeParamHandler_event_def output_RegTree_def)
next
  assume c: "cur_key \<notin> {''num_nodes'', ''num_feature'', ''size_leaf_vector'', ''num_deleted''}"
  then show 1: "TreeParamHandler_String x cur_key str (num_nodes h) = None"
    by (simp add: TreeParamHandler_String_cases)
  then show 2: "DelegatedHandler_event x (String str) st = Inl (Rejected [])"
    using assms(2)
    by (simp add: DelegatedHandler_event_def TreeParamHandler_event_def)
  show "ParseStream x (pre @ String str # post) =
      Inl (Fatal [''Parsing error'', ''Provided JSON could not be parsed as XGBoost model''])"
    using ParseStream_rejected[OF assms(1) 2] by simp
qed

lemma run_tree_param:
  "Reader_Parse example_externals
     (doc_start @ doc_model @ [StartObject, Key ''tree_param'', StartObject, Key cur_key])
     (DelegatedHandler_create example_externals) = Inr (state_param cur_key)"
proof -
  have "Reader_Parse example_externals
      [StartObject, Key ''tree_param'', StartObject, Key cur_key] state_model =
      Inr (state_param cur_key)"
    by (simp add: state_defs handler_defs example_defs)
  then show ?thesis
    by (simp add: Reader_Parse_append run_doc_start run_doc_model)
qed

text \<open>The three cases on the example document.\<close>

theorem TreeParamHandler_String_keys_witness:
  "Reader_Parse example_externals
     (doc_start @ doc_model @ [StartObject, Key ''tree_param'', StartObject, Key ''num_nodes''])
     (DelegatedHandler_create example_externals) = Inr (state_param ''num_nodes'') \<and>
   ''num_deleted'' \<in> {''num_feature'', ''size_leaf_vector'', ''num_deleted''} \<and>
   ''num_leaves'' \<notin> {''num_nodes'', ''num_feature'', ''size_leaf_vector'', ''num_deleted''} \<and>
   DelegatedHandler_event example_externals (String ''3'') (state_param ''num_nodes'') =
     Inr ((state_param ''num_nodes'')\<lparr>delegates := (''num_nodes'', TreeParamHandler) #
       (''tree_param'', RegTreeHandler ((new_RegTreeHandler 0)\<lparr>num_nodes := 3\<rparr>)) #
       delegates state_model\<rparr>) \<and>
   DelegatedHandler_event example_externals (String ''0'') (state_param ''num_deleted'') =
     Inr (state_param ''num_deleted'') \<and>
   ParseStream example_externals
     ((doc_start @ doc_model @
        [StartObject, Key ''tree_param'', StartObject, Key ''num_leaves'']) @
      String ''2'' # []) =
     Inl (Fatal [''Parsing error'', ''Provided JSON could not be parsed as XGBoost model''])"
proof -
  have top: "delegates (state_param cur_key) = (cur_key, TreeParamHandler) #
      (''tree_param'', RegTreeHandler (new_RegTreeHandler 0)) # delegates state_model"
    for cur_key
    by (simp add: state_param_def)
  note t = TreeParamHandler_String_keys[OF run_tree_param top]
  have a: "atoi example_externals ''3'' = 3"
    by (simp add: example_externals_def example_atoi_def)
  have 1: "DelegatedHandler_event example_externals (String ''3'') (state_param ''num_nodes'') =
     Inr ((state_param ''num_nodes'')\<lparr>delegates := (''num_nodes'', TreeParamHandler) #
       (''tree_param'', RegTreeHandler ((new_RegTreeHandler 0)\<lparr>num_nodes := 3\<rparr>)) #
       delegates state_model\<rparr>)"
    using t[of "''num_nodes''" "''3''" "[]"] a by simp
  have 2: "DelegatedHandler_event example_externals (String ''0'') (state_param ''num_deleted'') =
     Inr (state_param ''num_deleted'')"
    using t[of "''num_deleted''" "''0''" "[]"] by simp
  have 3: "ParseStream example_externals
     ((doc_start @ doc_model @
        [StartObject, Key ''tree_param'', StartObject, Key ''num_leaves'']) @
      String ''2'' # []) =
     Inl (Fatal [''Parsing error'', ''Provided JSON could not be parsed as XGBoost model''])"
    using t[of "''num_leaves''" "''2''" "[]"] by simp
  show ?thesis
    using run_tree_param[of "''num_nodes''"] 1 2 3 by simp
qed

lemma forget_simps [simp]:
  "result (forget st) = result st"
  "delegates (forget st) = map (apsnd forget_num_nodes) (delegates st)"
  by (simp_all add: forget_def)

lemma forget_eqD:
  assumes "forget st1 = forget st2"
  shows "result st1 = result st2"
    and "map (apsnd forget_num_nodes) (delegates st1) = map (apsnd forget_num_nodes) (delegates st2)"
  using assms by (metis forget_simps(1), metis forget_simps(2))

lemma forget_eqI:
  "result st1 = result st2 \<Longrightarrow>
   map (apsnd forget_num_nodes) (delegates st1) = map (apsnd forget_num_nodes) (delegates st2) \<Longrightarrow>
   more st1 = more st2 \<Longrightarrow> forget st1 = forget st2"
  by (simp add: forget_def)

lemma forget_push [simp]:
  "forget (push_delegate hdl st) = push_delegate (forget_num_nodes hdl) (forget st)"
  by (simp add: forget_def push_delegate_def)

lemma forget_pop [simp]: "forget (pop_delegate st) = pop_delegate (forget st)"
  by (simp add: forget_def pop_delegate_def map_tl)

lemma forget_set_cur_key [simp]: "forget (set_cur_key s st) = set_cur_key s (forget st)"
  by (cases "delegates st") (auto simp: forget_def set_cur_key_def)

lemma forget_output_Model [simp]: "forget (output_Model g st) = output_Model g (forget st)"
  by (simp add: forget_def output_Model_def)

lemma map_parent_commute:
  assumes "\<And>p. fg (f p) = f' (fg p)"
  shows "map (apsnd fg) (map_parent f ds) = map_parent f' (map (apsnd fg) ds)"
proof (cases ds)
  case Nil
  then show ?thesis by simp
next
  case (Cons a ds')
  then show ?thesis
    by (cases ds'; cases a) (auto simp: assms)
qed

lemma forget_output_version [simp]:
  "forget (output_version g st) = output_version g (forget st)"
  unfolding forget_def output_version_def
  by (simp add: map_parent_commute[where f' = "\<lambda>p. case p of XGBoostModelHandler v \<Rightarrow> XGBoostModelHandler (g v) | _ \<Rightarrow> p"]
      forget_num_nodes_def split: Handler.splits)


lemma forget_output_objective [simp]:
  "forget (output_objective g st) = output_objective g (forget st)"
  unfolding forget_def output_objective_def
  by (simp add: map_parent_commute[where f' = "\<lambda>p. case p of LearnerHandler s \<Rightarrow> LearnerHandler (g s) | _ \<Rightarrow> p"]
      forget_num_nodes_def split: Handler.splits)

lemma forget_output_RegTree:
  assumes "\<And>h. g (h\<lparr>num_nodes := 0\<rparr>) = (g h)\<lparr>num_nodes := 0\<rparr>"
  shows "forget (output_RegTree g st) = output_RegTree g (forget st)"
  unfolding forget_def output_RegTree_def
  by (simp add: map_parent_commute[where f' = "\<lambda>p. case p of RegTreeHandler h \<Rightarrow> RegTreeHandler (g h) | _ \<Rightarrow> p"]
      forget_num_nodes_def assms split: Handler.splits)

lemma forget_push_back [simp]:
  "forget (output_RegTree (push_back_double r d) st) =
     output_RegTree (push_back_double r d) (forget st)"
  "forget (output_RegTree (push_back_int q i) st) =
     output_RegTree (push_back_int q i) (forget st)"
  "forget (output_RegTree (\<lambda>h. h\<lparr>default_left := default_left h @ [b]\<rparr>) st) =
     output_RegTree (\<lambda>h. h\<lparr>default_left := default_left h @ [b]\<rparr>) (forget st)"
  by (rule forget_output_RegTree; simp add: push_back_double_def push_back_int_def
      split: DoubleRef.splits IntRef.splits)+

lemma map_parent_ident: "(\<And>p. fg (f p) = fg p) \<Longrightarrow>
  map (apsnd fg) (map_parent f ds) = map (apsnd fg) ds"
proof (cases ds)
  case Nil
  then show ?thesis by simp
next
  case (Cons a ds')
  assume "\<And>p. fg (f p) = fg p"
  with Cons show ?thesis
    by (cases ds'; cases a) auto
qed

lemma forget_output_num_nodes [simp]:
  "forget (output_RegTree (\<lambda>h. h\<lparr>num_nodes := n\<rparr>) st) = forget st"
  unfolding forget_def output_RegTree_def
  by (simp add: map_parent_ident forget_num_nodes_def split: Handler.splits)

lemma forget_num_nodes_new [simp]:
  "forget_num_nodes (RegTreeHandler (new_RegTreeHandler n)) =
     RegTreeHandler (new_RegTreeHandler 0)"
  by (simp add: forget_num_nodes_def new_RegTreeHandler_def)

lemma forget_num_nodes_other:
  assumes "forget_num_nodes a = forget_num_nodes b" and "\<And>h. a \<noteq> RegTreeHandler h"
  shows "b = a"
  using assms by (cases a; cases b) (simp_all add: forget_num_nodes_def)

lemma parent_forget:
  assumes "map (apsnd forget_num_nodes) d1 = map (apsnd forget_num_nodes) d2"
  shows "map_option forget_num_nodes (parent d1) = map_option forget_num_nodes (parent d2)"
proof (cases d1)
  case Nil
  with assms show ?thesis by simp
next
  case c1: (Cons a1 r1)
  with assms obtain a2 r2 where c2: "d2 = a2 # r2" by (cases d2) auto
  show ?thesis
  proof (cases r1)
    case Nil
    with assms c1 c2 show ?thesis by (cases a1; cases a2) auto
  next
    case (Cons b1 s1)
    with assms c1 c2 obtain b2 s2 where "r2 = b2 # s2" by (cases r2) auto
    with assms c1 c2 Cons show ?thesis by (cases a1; cases a2; cases b1; cases b2) auto
  qed
qed

lemma EndObject_forget:
  assumes "h1\<lparr>num_nodes := 0\<rparr> = h2\<lparr>num_nodes := 0\<rparr>"
    and "RegTreeHandler_EndObject d2f h1 = Inr t1"
    and "RegTreeHandler_EndObject d2f h2 = Inr t2"
  shows "t1 = t2"
proof -
  have e: "loss_changes h1 = loss_changes h2" "sum_hessian h1 = sum_hessian h2"
    "left_children h1 = left_children h2" "right_children h1 = right_children h2"
    "split_indices h1 = split_indices h2" "split_conditions h1 = split_conditions h2"
    "default_left h1 = default_left h2"
    using assms(1) by (cases h1; cases h2; simp)+
  have "EndObject_while d2f h1 T Q = EndObject_while d2f h2 T Q" for T Q
    by (rule while_visit_cong) (simp add: EndObject_visit_def e Let_def cong: if_cong)
  with assms(2,3) show ?thesis
    by (simp add: RegTreeHandler_EndObject_def Let_def split: if_splits)
qed

lemmas event_defs = BaseHandler_event_def accept_push_def accept_def push_handler_def
  pop_handler_def

lemma step_Ignore:
  assumes "forget st1 = forget st2"
    and "IgnoreHandler_event e st1 = Inr st1'"
    and "IgnoreHandler_event e st2 = Inr st2'"
  shows "forget st1' = forget st2'"
  using assms
  by (cases e) (auto simp: IgnoreHandler_event_def event_defs)

lemma step_Array:
  assumes "forget st1 = forget st2"
    and "ArrayHandler_event n1 hdl e st1 = Inr st1'"
    and "ArrayHandler_event n2 hdl e st2 = Inr st2'"
  shows "forget st1' = forget st2'"
  using assms
  by (cases hdl; cases e) (auto simp: ArrayHandler_event_def event_defs)

lemma step_TreeParam:
  assumes f: "forget st1 = forget st2"
    and r1: "TreeParamHandler_event x1 k e st1 = Inr st1'"
    and r2: "TreeParamHandler_event x2 k e st2 = Inr st2'"
  shows "forget st1' = forget st2'"
proof (cases "\<exists>str. e = String str")
  case False
  with assms show ?thesis
    by (cases e) (auto simp: TreeParamHandler_event_def event_defs)
next
  case True
  then obtain str where e: "e = String str" ..
  from r1 e obtain n1 where s1: "st1' = output_RegTree (\<lambda>h. h\<lparr>num_nodes := n1\<rparr>) st1"
    by (auto simp: TreeParamHandler_event_def split: option.splits Handler.splits)
  from r2 e obtain n2 where s2: "st2' = output_RegTree (\<lambda>h. h\<lparr>num_nodes := n2\<rparr>) st2"
    by (auto simp: TreeParamHandler_event_def split: option.splits Handler.splits)
  from s1 s2 f show ?thesis by simp
qed

lemma step_RegTree:
  assumes f: "forget st1 = forget st2"
    and hh: "h1\<lparr>num_nodes := 0\<rparr> = h2\<lparr>num_nodes := 0\<rparr>"
    and x: "to_float x2 = to_float x1"
    and r1: "RegTreeHandler_event x1 k h1 e st1 = Inr st1'"
    and r2: "RegTreeHandler_event x2 k h2 e st2 = Inr st2'"
  shows "forget st1' = forget st2'"
proof (cases "\<exists>m. e = EndObject m")
  case False
  with f r1 r2 show ?thesis
    by (cases e) (auto simp: RegTreeHandler_event_def event_defs split: option.splits if_splits)
next
  case True
  then obtain m where e: "e = EndObject m" ..
  from r1 e obtain t1 where
    t1: "RegTreeHandler_EndObject (to_float x1) h1 = Inr t1"
    and s1: "st1' = pop_delegate
      (output_Model (\<lambda>m. m\<lparr>trees := (trees m)[length (trees m) - 1 := t1]\<rparr>) st1)"
    by (auto simp: RegTreeHandler_event_def pop_handler_def split: sum.splits)
  from r2 e x obtain t2 where
    t2: "RegTreeHandler_EndObject (to_float x1) h2 = Inr t2"
    and s2: "st2' = pop_delegate
      (output_Model (\<lambda>m. m\<lparr>trees := (trees m)[length (trees m) - 1 := t2]\<rparr>) st2)"
    by (auto simp: RegTreeHandler_event_def pop_handler_def split: sum.splits)
  from EndObject_forget[OF hh t1 t2] s1 s2 f show ?thesis by simp
qed

lemma step_GBTreeModel:
  assumes "forget st1 = forget st2"
    and "GBTreeModelHandler_event k e st1 = Inr st1'"
    and "GBTreeModelHandler_event k e st2 = Inr st2'"
  shows "forget st1' = forget st2'"
  using assms
  by (cases e) (auto simp: GBTreeModelHandler_event_def event_defs split: option.splits)

lemma step_GradientBooster:
  assumes "forget st1 = forget st2"
    and "GradientBoosterHandler_event k e st1 = Inr st1'"
    and "GradientBoosterHandler_event k e st2 = Inr st2'"
  shows "forget st1' = forget st2'"
  using assms
  by (cases e) (auto simp: GradientBoosterHandler_event_def event_defs
      split: prod.splits bool.splits option.splits)

lemma step_Objective:
  assumes "forget st1 = forget st2"
    and "ObjectiveHandler_event k e st1 = Inr st1'"
    and "ObjectiveHandler_event k e st2 = Inr st2'"
  shows "forget st1' = forget st2'"
  using assms
  by (cases e) (auto simp: ObjectiveHandler_event_def event_defs split: option.splits)

lemma step_LearnerParam:
  assumes "forget st1 = forget st2"
    and "atoi x2 = atoi x1" "strtof x2 = strtof x1"
    and "LearnerParamHandler_event x1 k e st1 = Inr st1'"
    and "LearnerParamHandler_event x2 k e st2 = Inr st2'"
  shows "forget st1' = forget st2'"
  using assms forget_eqD(1)[OF assms(1)]
  by (cases e) (auto simp: LearnerParamHandler_event_def LearnerParamHandler_String_def
      event_defs split: option.splits)

lemma step_Learner:
  assumes "forget st1 = forget st2"
    and "SetPredTransform x2 = SetPredTransform x1"
    and "LearnerHandler_event x1 k objective e st1 = Inr st1'"
    and "LearnerHandler_event x2 k objective e st2 = Inr st2'"
  shows "forget st1' = forget st2'"
proof -
  have "LearnerHandler_EndObject x2 = LearnerHandler_EndObject x1"
    using assms(2) by (simp add: fun_eq_iff LearnerHandler_EndObject_def)
  with assms show ?thesis
    by (cases e) (auto simp: LearnerHandler_event_def event_defs split: option.splits)
qed

lemma step_XGBoostModel:
  assumes "forget st1 = forget st2"
    and "TransformGlobalBiasToMargin x2 = TransformGlobalBiasToMargin x1"
    and "XGBoostModelHandler_event x1 k version e st1 = Inr st1'"
    and "XGBoostModelHandler_event x2 k version e st2 = Inr st2'"
  shows "forget st1' = forget st2'"
proof -
  have "XGBoostModelHandler_EndObject x2 = XGBoostModelHandler_EndObject x1"
    unfolding fun_eq_iff XGBoostModelHandler_EndObject_def by (simp only: assms(2)) simp
  with assms forget_eqD(1)[OF assms(1)] show ?thesis
    by (cases e) (auto simp: XGBoostModelHandler_event_def event_defs
        split: sum.splits option.splits)
qed

lemma step_Root:
  assumes "forget st1 = forget st2"
    and "RootHandler_event e st1 = Inr st1'"
    and "RootHandler_event e st2 = Inr st2'"
  shows "forget st1' = forget st2'"
  using assms
  by (cases e) (auto simp: RootHandler_event_def event_defs)


lemma dispatch:
  "delegates st = (k, hdl) # ds \<Longrightarrow>
   DelegatedHandler_event x e st =
     (case hdl of
        IgnoreHandler \<Rightarrow> IgnoreHandler_event e st
      | TreeParamHandler \<Rightarrow> TreeParamHandler_event x k e st
      | RegTreeHandler h \<Rightarrow> RegTreeHandler_event x k h e st
      | GBTreeModelHandler \<Rightarrow> GBTreeModelHandler_event k e st
      | GradientBoosterHandler \<Rightarrow> GradientBoosterHandler_event k e st
      | ObjectiveHandler \<Rightarrow> ObjectiveHandler_event k e st
      | LearnerParamHandler \<Rightarrow> LearnerParamHandler_event x k e st
      | LearnerHandler objective \<Rightarrow> LearnerHandler_event x k objective e st
      | XGBoostModelHandler version \<Rightarrow> XGBoostModelHandler_event x k version e st
      | RootHandler \<Rightarrow> RootHandler_event e st
      | _ \<Rightarrow> ArrayHandler_event (new_num_nodes x) hdl e st)"
  by (simp add: DelegatedHandler_event_def)

lemma step_forget:
  assumes f: "forget st1 = forget st2"
    and x: "x2 = x1\<lparr>new_num_nodes := n\<rparr>"
    and r1: "DelegatedHandler_event x1 e st1 = Inr st1'"
    and r2: "DelegatedHandler_event x2 e st2 = Inr st2'"
  shows "forget st1' = forget st2'"
proof -
  note dd = forget_eqD(2)[OF f]
  have "delegates st1 \<noteq> []"
    using r1 by (cases "delegates st1") (simp_all add: DelegatedHandler_event_def)
  then obtain k hdl1 ds1 where d1: "delegates st1 = (k, hdl1) # ds1"
    by (cases "delegates st1") auto
  from dd[symmetric] have "map (apsnd forget_num_nodes) (delegates st2) =
      (k, forget_num_nodes hdl1) # map (apsnd forget_num_nodes) ds1"
    by (simp add: d1)
  then obtain z ds2 where z: "delegates st2 = z # ds2"
    and zz: "apsnd forget_num_nodes z = (k, forget_num_nodes hdl1)"
    unfolding map_eq_Cons_conv by blast
  obtain k2 hdl2 where "z = (k2, hdl2)" by (cases z)
  with z zz have d2: "delegates st2 = (k, hdl2) # ds2"
    and fh: "forget_num_nodes hdl1 = forget_num_nodes hdl2"
    by simp_all
  note e1 = r1[unfolded dispatch[OF d1]]
  note e2 = r2[unfolded dispatch[OF d2]]
  have same: "hdl2 = hdl1" if "\<And>h. hdl1 \<noteq> RegTreeHandler h"
    using fh that by (rule forget_num_nodes_other)
  show ?thesis
  proof (cases hdl1)
    case IgnoreHandler
    then have h2: "hdl2 = IgnoreHandler" using same by simp
    show ?thesis
      by (rule step_Ignore[OF f e1[unfolded IgnoreHandler Handler.case]
            e2[unfolded h2 Handler.case]])
  next
    case (ArrayHandler_double r)
    then have h2: "hdl2 = ArrayHandler_double r" using same by simp
    show ?thesis
      by (rule step_Array[OF f e1[unfolded ArrayHandler_double Handler.case]
            e2[unfolded h2 Handler.case]])
  next
    case (ArrayHandler_int r)
    then have h2: "hdl2 = ArrayHandler_int r" using same by simp
    show ?thesis
      by (rule step_Array[OF f e1[unfolded ArrayHandler_int Handler.case]
            e2[unfolded h2 Handler.case]])
  next
    case ArrayHandler_bool
    then have h2: "hdl2 = ArrayHandler_bool" using same by simp
    show ?thesis
      by (rule step_Array[OF f e1[unfolded ArrayHandler_bool Handler.case]
            e2[unfolded h2 Handler.case]])
  next
    case ArrayHandler_unsigned
    then have h2: "hdl2 = ArrayHandler_unsigned" using same by simp
    show ?thesis
      by (rule step_Array[OF f e1[unfolded ArrayHandler_unsigned Handler.case]
            e2[unfolded h2 Handler.case]])
  next
    case ArrayHandler_Tree
    then have h2: "hdl2 = ArrayHandler_Tree" using same by simp
    show ?thesis
      by (rule step_Array[OF f e1[unfolded ArrayHandler_Tree Handler.case]
            e2[unfolded h2 Handler.case]])
  next
    case TreeParamHandler
    then have h2: "hdl2 = TreeParamHandler" using same by simp
    show ?thesis
      by (rule step_TreeParam[OF f e1[unfolded TreeParamHandler Handler.case]
            e2[unfolded h2 Handler.case]])
  next
    case (RegTreeHandler h1)
    with fh obtain h2 where h2: "hdl2 = RegTreeHandler h2"
      and hh: "h1\<lparr>num_nodes := 0\<rparr> = h2\<lparr>num_nodes := 0\<rparr>"
      by (cases hdl2) (simp_all add: forget_num_nodes_def)
    have "to_float x2 = to_float x1" using x by simp
    from step_RegTree[OF f hh this e1[unfolded RegTreeHandler Handler.case]
        e2[unfolded h2 Handler.case]]
    show ?thesis .
  next
    case GBTreeModelHandler
    then have h2: "hdl2 = GBTreeModelHandler" using same by simp
    show ?thesis
      by (rule step_GBTreeModel[OF f e1[unfolded GBTreeModelHandler Handler.case]
            e2[unfolded h2 Handler.case]])
  next
    case GradientBoosterHandler
    then have h2: "hdl2 = GradientBoosterHandler" using same by simp
    show ?thesis
      by (rule step_GradientBooster[OF f e1[unfolded GradientBoosterHandler Handler.case]
            e2[unfolded h2 Handler.case]])
  next
    case ObjectiveHandler
    then have h2: "hdl2 = ObjectiveHandler" using same by simp
    show ?thesis
      by (rule step_Objective[OF f e1[unfolded ObjectiveHandler Handler.case]
            e2[unfolded h2 Handler.case]])
  next
    case LearnerParamHandler
    then have h2: "hdl2 = LearnerParamHandler" using same by simp
    have "atoi x2 = atoi x1" "strtof x2 = strtof x1" using x by simp_all
    from step_LearnerParam[OF f this e1[unfolded LearnerParamHandler Handler.case]
        e2[unfolded h2 Handler.case]]
    show ?thesis .
  next
    case (LearnerHandler objective)
    then have h2: "hdl2 = LearnerHandler objective" using same by simp
    have "SetPredTransform x2 = SetPredTransform x1" using x by simp
    from step_Learner[OF f this e1[unfolded LearnerHandler Handler.case]
        e2[unfolded h2 Handler.case]]
    show ?thesis .
  next
    case (XGBoostModelHandler version)
    then have h2: "hdl2 = XGBoostModelHandler version" using same by simp
    have "TransformGlobalBiasToMargin x2 = TransformGlobalBiasToMargin x1" using x by simp
    from step_XGBoostModel[OF f this e1[unfolded XGBoostModelHandler Handler.case]
        e2[unfolded h2 Handler.case]]
    show ?thesis .
  next
    case RootHandler
    then have h2: "hdl2 = RootHandler" using same by simp
    show ?thesis
      by (rule step_Root[OF f e1[unfolded RootHandler Handler.case]
            e2[unfolded h2 Handler.case]])
  qed
qed

lemma Reader_Parse_Cons_Inr:
  "Reader_Parse x (e # es) st = Inr st' \<longleftrightarrow>
     (\<exists>s. DelegatedHandler_event x e st = Inr s \<and> Reader_Parse x es s = Inr st')"
  by (cases "DelegatedHandler_event x e st") simp_all

lemma run_forget:
  assumes "x2 = x1\<lparr>new_num_nodes := n\<rparr>"
  shows "forget st1 = forget st2 \<Longrightarrow> Reader_Parse x1 es st1 = Inr st1' \<Longrightarrow>
    Reader_Parse x2 es st2 = Inr st2' \<Longrightarrow> forget st1' = forget st2'"
proof (induction es arbitrary: st1 st2)
  case Nil
  then show ?case by simp
next
  case (Cons e es)
  from Cons.prems(2) obtain s1 where a1: "DelegatedHandler_event x1 e st1 = Inr s1"
    and b1: "Reader_Parse x1 es s1 = Inr st1'"
    unfolding Reader_Parse_Cons_Inr by blast
  from Cons.prems(3) obtain s2 where a2: "DelegatedHandler_event x2 e st2 = Inr s2"
    and b2: "Reader_Parse x2 es s2 = Inr st2'"
    unfolding Reader_Parse_Cons_Inr by blast
  from step_forget[OF Cons.prems(1) assms a1 a2] have "forget s1 = forget s2" .
  then show ?case using b1 b2 by (rule Cons.IH)
qed

lemma ParseStream_Inr:
  "ParseStream x es = Inr m \<longleftrightarrow>
     (\<exists>st. Reader_Parse x es (DelegatedHandler_create x) = Inr st \<and> result st = m)"
proof (cases "Reader_Parse x es (DelegatedHandler_create x)")
  case (Inl err)
  then show ?thesis by (cases err) (simp_all add: ParseStream_def)
next
  case (Inr st)
  then show ?thesis by (simp add: ParseStream_def)
qed


lemma create_forget:
  "forget (DelegatedHandler_create (x\<lparr>new_num_nodes := n1\<rparr>)) =
   forget (DelegatedHandler_create (x\<lparr>new_num_nodes := n2\<rparr>))"
  by (simp add: forget_def DelegatedHandler_create_def)

text \<open>
  Claim C9. Two parses of the same document that both return a model return the same
  model: the model is a function of the events alone, whatever value the member
  \<^verbatim>\<open>num_nodes\<close>, which the sources do not initialise, has in each new tree handler of
  either parse.
\<close>

theorem ParseStream_deterministic:
  assumes "ParseStream (x\<lparr>new_num_nodes := n1\<rparr>) input_stream = Inr m1"
    and "ParseStream (x\<lparr>new_num_nodes := n2\<rparr>) input_stream = Inr m2"
  shows "m1 = m2"
proof -
  from assms(1) obtain st1 where
    r1: "Reader_Parse (x\<lparr>new_num_nodes := n1\<rparr>) input_stream
      (DelegatedHandler_create (x\<lparr>new_num_nodes := n1\<rparr>)) = Inr st1"
    and m1: "result st1 = m1"
    unfolding ParseStream_Inr by blast
  from assms(2) obtain st2 where
    r2: "Reader_Parse (x\<lparr>new_num_nodes := n2\<rparr>) input_stream
      (DelegatedHandler_create (x\<lparr>new_num_nodes := n2\<rparr>)) = Inr st2"
    and m2: "result st2 = m2"
    unfolding ParseStream_Inr by blast
  have x: "x\<lparr>new_num_nodes := n2\<rparr> = x\<lparr>new_num_nodes := n1\<rparr>\<lparr>new_num_nodes := n2\<rparr>"
    by simp
  from run_forget[OF x create_forget r1 r2] have "forget st1 = forget st2" .
  then have "result st1 = result st2" by (rule forget_eqD(1))
  with m1 m2 show ?thesis by simp
qed

text \<open>The example document, parsed with two different starting values.\<close>

theorem ParseStream_deterministic_witness:
  "ParseStream (example_externals\<lparr>new_num_nodes := 0\<rparr>) example_document = Inr example_model \<and>
   ParseStream (example_externals\<lparr>new_num_nodes := 7\<rparr>) example_document = Inr example_model \<and>
   example_model = example_model"
  using parse_example_document_any[of 0] parse_example_document_any[of 7]
    ParseStream_deterministic[OF parse_example_document_any[of 0]
      parse_example_document_any[of 7]]
  by simp


subsection \<open>Whole documents\<close>

text \<open>
  Every event that a handler accepts changes the shape of the stack as \<open>step_shape\<close> says, so
  the events of a JSON value leave the stack with the shape it had when the value started.
\<close>

lemma shape_push [simp]: "shape (push_delegate hdl st) = erase hdl # shape st"
  by (simp add: shape_def push_delegate_def)

lemma shape_pop [simp]: "shape (pop_delegate st) = tl (shape st)"
  by (simp add: shape_def pop_delegate_def map_tl)

lemma shape_set_cur_key [simp]: "shape (set_cur_key s st) = shape st"
  by (cases "delegates st") (auto simp: shape_def set_cur_key_def)

lemma shape_output_Model [simp]: "shape (output_Model g st) = shape st"
  by (simp add: shape_def output_Model_def)

lemma map_parent_erase:
  assumes "\<And>p. erase (f p) = erase p"
  shows "map (\<lambda>fr. erase (snd fr)) (map_parent f ds) = map (\<lambda>fr. erase (snd fr)) ds"
proof (cases ds)
  case Nil
  then show ?thesis by simp
next
  case (Cons a ds')
  then show ?thesis
    by (cases ds'; cases a) (auto simp: assms)
qed

lemma erase_simps [simp]:
  "erase IgnoreHandler = IgnoreHandler"
  "erase (ArrayHandler_double r) = ArrayHandler_double r"
  "erase (ArrayHandler_int q) = ArrayHandler_int q"
  "erase ArrayHandler_bool = ArrayHandler_bool"
  "erase ArrayHandler_unsigned = ArrayHandler_unsigned"
  "erase ArrayHandler_Tree = ArrayHandler_Tree"
  "erase TreeParamHandler = TreeParamHandler"
  "erase (RegTreeHandler h) = RegTreeHandler (new_RegTreeHandler 0)"
  "erase GBTreeModelHandler = GBTreeModelHandler"
  "erase GradientBoosterHandler = GradientBoosterHandler"
  "erase ObjectiveHandler = ObjectiveHandler"
  "erase LearnerParamHandler = LearnerParamHandler"
  "erase (LearnerHandler s) = LearnerHandler []"
  "erase (XGBoostModelHandler v) = XGBoostModelHandler []"
  "erase RootHandler = RootHandler"
  by (simp_all add: erase_def)

lemma shape_output [simp]:
  "shape (output_RegTree g st) = shape st"
  "shape (output_version gv st) = shape st"
  "shape (output_objective go st) = shape st"
  unfolding shape_def output_RegTree_def output_version_def output_objective_def
  by (simp_all, (rule map_parent_erase, simp split: Handler.splits)+)

lemma first_true_in: "first_true rs = Some a \<Longrightarrow> Some a \<in> set rs"
  by (induction rs rule: first_true.induct) auto

lemma push_key_handler_Some:
  "push_key_handler k key H = Some hdl \<longleftrightarrow> k = key \<and> hdl = H"
  "Some hdl = push_key_handler k key H \<longleftrightarrow> k = key \<and> hdl = H"
  by (auto simp: push_key_handler_def check_cur_key_def)

lemma accept_push_Inr:
  "accept_push r st = Inr st' \<longleftrightarrow> (\<exists>hdl. r = Some hdl \<and> st' = push_delegate hdl st)"
  by (cases r) (auto simp: accept_push_def push_handler_def)

lemma pushed_plain: "plain hdl \<Longrightarrow> pushed sh (erase hdl # sh)"
  by (simp add: pushed_def plain_def)

lemma plain_chains:
  "RegTreeHandler_StartArray k = Some (hdl :: 'd Handler) \<Longrightarrow> plain hdl"
  "RegTreeHandler_StartObject k = Some hdl \<Longrightarrow> plain hdl"
  "GBTreeModelHandler_StartArray k = Some hdl \<Longrightarrow> plain hdl"
  "GBTreeModelHandler_StartObject k = Some hdl \<Longrightarrow> plain hdl"
  "ObjectiveHandler_StartObject k = Some hdl \<Longrightarrow> plain hdl"
  "LearnerHandler_StartObject k = Some hdl \<Longrightarrow> plain hdl"
  "XGBoostModelHandler_StartArray k = Some hdl \<Longrightarrow> plain hdl"
  "XGBoostModelHandler_StartObject k = Some hdl \<Longrightarrow> plain hdl"
  unfolding RegTreeHandler_StartArray_def RegTreeHandler_StartObject_def
    GBTreeModelHandler_StartArray_def GBTreeModelHandler_StartObject_def
    ObjectiveHandler_StartObject_def LearnerHandler_StartObject_def
    XGBoostModelHandler_StartArray_def XGBoostModelHandler_StartObject_def
  by (auto dest!: first_true_in simp: push_key_handler_Some plain_def)

lemma shape_Base:
  "BaseHandler_event e st = Inr st' \<Longrightarrow> step_shape e (shape st) (shape st')"
  by (cases e) (auto simp: BaseHandler_event_def pop_handler_def step_shape_def)

lemma shape_Ignore:
  "IgnoreHandler_event e st = Inr st' \<Longrightarrow> step_shape e (shape st) (shape st')"
  by (cases e)
    (auto simp: IgnoreHandler_event_def BaseHandler_event_def pop_handler_def push_handler_def
      step_shape_def pushed_def)

lemma shape_Array:
  "ArrayHandler_event n hdl e st = Inr st' \<Longrightarrow> step_shape e (shape st) (shape st')"
  by (cases hdl; cases e)
    (auto simp: ArrayHandler_event_def BaseHandler_event_def pop_handler_def push_handler_def
      step_shape_def pushed_def new_RegTreeHandler_def)

lemma shape_TreeParam:
  "TreeParamHandler_event x k e st = Inr st' \<Longrightarrow> step_shape e (shape st) (shape st')"
  by (cases e)
    (auto simp: TreeParamHandler_event_def BaseHandler_event_def pop_handler_def
      step_shape_def split: option.splits Handler.splits)

lemma shape_RegTree:
  "RegTreeHandler_event x k h e st = Inr st' \<Longrightarrow> step_shape e (shape st) (shape st')"
  by (cases e)
    (auto simp: RegTreeHandler_event_def BaseHandler_event_def pop_handler_def accept_def
      accept_push_Inr step_shape_def split: sum.splits if_splits
      intro!: pushed_plain dest: plain_chains)

lemma shape_GBTreeModel:
  "GBTreeModelHandler_event k e st = Inr st' \<Longrightarrow> step_shape e (shape st) (shape st')"
  by (cases e)
    (auto simp: GBTreeModelHandler_event_def BaseHandler_event_def pop_handler_def
      accept_push_Inr step_shape_def intro!: pushed_plain dest: plain_chains)

lemma shape_GradientBooster:
  "GradientBoosterHandler_event k e st = Inr st' \<Longrightarrow> step_shape e (shape st) (shape st')"
  by (cases e)
    (auto simp: GradientBoosterHandler_event_def GradientBoosterHandler_StartObject_def
      BaseHandler_event_def pop_handler_def push_handler_def step_shape_def pushed_def
      push_key_handler_Some split: prod.splits bool.splits option.splits)

lemma shape_Objective:
  "ObjectiveHandler_event k e st = Inr st' \<Longrightarrow> step_shape e (shape st) (shape st')"
  by (cases e)
    (auto simp: ObjectiveHandler_event_def BaseHandler_event_def pop_handler_def
      accept_push_Inr step_shape_def split: option.splits
      intro!: pushed_plain dest: plain_chains)

lemma shape_LearnerParam:
  "LearnerParamHandler_event x k e st = Inr st' \<Longrightarrow> step_shape e (shape st) (shape st')"
  by (cases e)
    (auto simp: LearnerParamHandler_event_def BaseHandler_event_def pop_handler_def
      step_shape_def split: option.splits)

lemma shape_Learner:
  "LearnerHandler_event x k objective e st = Inr st' \<Longrightarrow>
     step_shape e (shape st) (shape st')"
  by (cases e)
    (auto simp: LearnerHandler_event_def BaseHandler_event_def pop_handler_def
      accept_push_Inr step_shape_def intro!: pushed_plain dest: plain_chains)

lemma shape_XGBoostModel:
  "XGBoostModelHandler_event x k version e st = Inr st' \<Longrightarrow>
     step_shape e (shape st) (shape st')"
  by (cases e)
    (auto simp: XGBoostModelHandler_event_def BaseHandler_event_def pop_handler_def
      accept_push_Inr step_shape_def split: sum.splits
      intro!: pushed_plain dest: plain_chains)

lemma shape_Root:
  "RootHandler_event e st = Inr st' \<Longrightarrow> \<exists>ks. shape st = RootHandler # ks \<Longrightarrow>
     step_shape e (shape st) (shape st')"
  by (cases e)
    (auto simp: RootHandler_event_def BaseHandler_event_def pop_handler_def push_handler_def
      step_shape_def pushed_def)

lemma step_shape_event:
  assumes r: "DelegatedHandler_event x e st = Inr st'"
  shows "step_shape e (shape st) (shape st')"
proof -
  have "delegates st \<noteq> []"
    using r by (cases "delegates st") (simp_all add: DelegatedHandler_event_def)
  then obtain k hdl ds where d: "delegates st = (k, hdl) # ds"
    by (cases "delegates st") auto
  note e1 = r[unfolded dispatch[OF d]]
  show ?thesis
  proof (cases hdl)
    case IgnoreHandler
    show ?thesis by (rule shape_Ignore[OF e1[unfolded IgnoreHandler Handler.case]])
  next
    case (ArrayHandler_double r)
    show ?thesis by (rule shape_Array[OF e1[unfolded ArrayHandler_double Handler.case]])
  next
    case (ArrayHandler_int r)
    show ?thesis by (rule shape_Array[OF e1[unfolded ArrayHandler_int Handler.case]])
  next
    case ArrayHandler_bool
    show ?thesis by (rule shape_Array[OF e1[unfolded ArrayHandler_bool Handler.case]])
  next
    case ArrayHandler_unsigned
    show ?thesis by (rule shape_Array[OF e1[unfolded ArrayHandler_unsigned Handler.case]])
  next
    case ArrayHandler_Tree
    show ?thesis by (rule shape_Array[OF e1[unfolded ArrayHandler_Tree Handler.case]])
  next
    case TreeParamHandler
    show ?thesis by (rule shape_TreeParam[OF e1[unfolded TreeParamHandler Handler.case]])
  next
    case (RegTreeHandler h)
    show ?thesis by (rule shape_RegTree[OF e1[unfolded RegTreeHandler Handler.case]])
  next
    case GBTreeModelHandler
    show ?thesis by (rule shape_GBTreeModel[OF e1[unfolded GBTreeModelHandler Handler.case]])
  next
    case GradientBoosterHandler
    show ?thesis
      by (rule shape_GradientBooster[OF e1[unfolded GradientBoosterHandler Handler.case]])
  next
    case ObjectiveHandler
    show ?thesis by (rule shape_Objective[OF e1[unfolded ObjectiveHandler Handler.case]])
  next
    case LearnerParamHandler
    show ?thesis by (rule shape_LearnerParam[OF e1[unfolded LearnerParamHandler Handler.case]])
  next
    case (LearnerHandler objective)
    show ?thesis by (rule shape_Learner[OF e1[unfolded LearnerHandler Handler.case]])
  next
    case (XGBoostModelHandler version)
    show ?thesis by (rule shape_XGBoostModel[OF e1[unfolded XGBoostModelHandler Handler.case]])
  next
    case RootHandler
    have "\<exists>ks. shape st = RootHandler # ks"
      using d RootHandler by (simp add: shape_def)
    with e1[unfolded RootHandler Handler.case] show ?thesis by (rule shape_Root)
  qed
qed

lemma Reader_Parse_append_Inr:
  "Reader_Parse x (es @ es') st = Inr st' \<longleftrightarrow>
     (\<exists>s. Reader_Parse x es st = Inr s \<and> Reader_Parse x es' s = Inr st')"
  by (cases "Reader_Parse x es st") (simp_all add: Reader_Parse_append)

lemma Reader_Parse_single_Inr:
  "Reader_Parse x [e] st = Inr st' \<longleftrightarrow> DelegatedHandler_event x e st = Inr st'"
  by (cases "DelegatedHandler_event x e st") simp_all

lemma elements_shape:
  assumes "\<And>v st st'. v \<in> set vs \<Longrightarrow> Reader_Parse x (events_of v) st = Inr st' \<Longrightarrow>
    shape st' = shape st"
  shows "Reader_Parse x (elements vs) st = Inr st' \<Longrightarrow> shape st' = shape st"
  using assms
proof (induction vs arbitrary: st)
  case Nil
  then show ?case by simp
next
  case (Cons v vs)
  from Cons.prems(1) obtain s where 1: "Reader_Parse x (events_of v) st = Inr s"
    and 2: "Reader_Parse x (elements vs) s = Inr st'"
    by (auto simp: Reader_Parse_append_Inr)
  from 1 have "shape s = shape st" by (rule Cons.prems(2)[rotated]) simp
  moreover from 2 have "shape st' = shape s"
    by (rule Cons.IH) (rule Cons.prems(2), simp_all)
  ultimately show ?case by simp
qed

lemma members_shape:
  assumes "\<And>k v st st'. (k, v) \<in> set ms \<Longrightarrow> Reader_Parse x (events_of v) st = Inr st' \<Longrightarrow>
    shape st' = shape st"
  shows "Reader_Parse x (members ms) st = Inr st' \<Longrightarrow> shape st' = shape st"
  using assms
proof (induction ms arbitrary: st)
  case Nil
  then show ?case by simp
next
  case (Cons m ms)
  obtain k v where m: "m = (k, v)" by (cases m)
  from Cons.prems(1) m obtain s0 s where 0: "DelegatedHandler_event x (Key k) st = Inr s0"
    and 1: "Reader_Parse x (events_of v) s0 = Inr s"
    and 2: "Reader_Parse x (members ms) s = Inr st'"
    by (auto simp del: Reader_Parse.simps(2) simp add: Reader_Parse_Cons_Inr Reader_Parse_append_Inr)
  from step_shape_event[OF 0] have "shape s0 = shape st" by (simp add: step_shape_def)
  moreover from 1 have "shape s = shape s0" by (rule Cons.prems(2)[of k, rotated]) (simp add: m)
  moreover from 2 have "shape st' = shape s"
  proof (rule Cons.IH)
    fix k v st st'
    assume "(k, v) \<in> set ms" and "Reader_Parse x (events_of v) st = Inr st'"
    then show "shape st' = shape st" by (intro Cons.prems(2)[of k v]) simp_all
  qed
  ultimately show ?case by simp
qed

lemma value_shape:
  "Reader_Parse x (events_of v) st = Inr st' \<Longrightarrow> shape st' = shape st"
proof (induction v arbitrary: st st')
  case (JArray vs)
  from JArray.prems obtain s1 s2 where 1: "DelegatedHandler_event x StartArray st = Inr s1"
    and 2: "Reader_Parse x (elements vs) s1 = Inr s2"
    and 3: "DelegatedHandler_event x (EndArray (length vs)) s2 = Inr st'"
    by (auto simp del: Reader_Parse.simps(2) simp add: Reader_Parse_Cons_Inr Reader_Parse_append_Inr)
  from step_shape_event[OF 1] obtain K where "shape s1 = K # shape st"
    by (auto simp: step_shape_def pushed_def)
  moreover from 2 have "shape s2 = shape s1"
    by (rule elements_shape[rotated]) (rule JArray.IH)
  moreover from step_shape_event[OF 3] have "shape st' = tl (shape s2)"
    by (simp add: step_shape_def)
  ultimately show ?case by simp
next
  case (JObject ms)
  from JObject.prems obtain s1 s2 where 1: "DelegatedHandler_event x StartObject st = Inr s1"
    and 2: "Reader_Parse x (members ms) s1 = Inr s2"
    and 3: "DelegatedHandler_event x (EndObject (length ms)) s2 = Inr st'"
    by (auto simp del: Reader_Parse.simps(2) simp add: Reader_Parse_Cons_Inr Reader_Parse_append_Inr)
  from step_shape_event[OF 1] obtain K where "shape s1 = K # shape st"
    by (auto simp: step_shape_def pushed_def)
  moreover from 2 have "shape s2 = shape s1"
  proof (rule members_shape[rotated])
    fix k v st st'
    assume "(k, v) \<in> set ms" and "Reader_Parse x (events_of v) st = Inr st'"
    then show "shape st' = shape st"
      by (intro JObject.IH[of "(k, v)" v]) simp_all
  qed
  moreover from step_shape_event[OF 3] have "shape st' = tl (shape s2)"
    by (simp add: step_shape_def)
  ultimately show ?case by simp
qed (auto simp del: Reader_Parse.simps(2) simp add: Reader_Parse_single_Inr step_shape_def dest!: step_shape_event)

lemma erase_eq:
  "erase h = XGBoostModelHandler [] \<longleftrightarrow> (\<exists>v. h = XGBoostModelHandler v)"
  "erase h = LearnerHandler [] \<longleftrightarrow> (\<exists>s. h = LearnerHandler s)"
  "erase h = GradientBoosterHandler \<longleftrightarrow> h = GradientBoosterHandler"
  "erase h = RootHandler \<longleftrightarrow> h = RootHandler"
  by (cases h; simp)+

lemma shape_Cons:
  "shape st = K # ks \<longleftrightarrow>
     (\<exists>c h ds. delegates st = (c, h) # ds \<and> erase h = K \<and> map (\<lambda>fr. erase (snd fr)) ds = ks)"
  by (cases "delegates st") (auto simp: shape_def)

lemma members_run_shape:
  "Reader_Parse x (members ms) st = Inr st' \<Longrightarrow> shape st' = shape st"
  by (erule members_shape[rotated]) (erule value_shape)

lemma Key_XGBoostModel:
  assumes "DelegatedHandler_event x (Key k) st = Inr st'"
    and "delegates st = (c, XGBoostModelHandler v) # ds"
  shows "st' = st\<lparr>delegates := (k, XGBoostModelHandler v) # ds\<rparr>"
  using assms
  by (simp add: dispatch[OF assms(2)] XGBoostModelHandler_event_def BaseHandler_event_def
      set_cur_key_def)

lemma Key_Learner:
  assumes "DelegatedHandler_event x (Key k) st = Inr st'"
    and "delegates st = (c, LearnerHandler s) # ds"
  shows "st' = st\<lparr>delegates := (k, LearnerHandler s) # ds\<rparr>"
  using assms
  by (simp add: dispatch[OF assms(2)] LearnerHandler_event_def BaseHandler_event_def
      set_cur_key_def)

lemma Key_GradientBooster:
  assumes "DelegatedHandler_event x (Key k) st = Inr st'"
    and "delegates st = (c, GradientBoosterHandler) # ds"
  shows "st' = st\<lparr>delegates := (k, GradientBoosterHandler) # ds\<rparr>"
  using assms
  by (simp add: dispatch[OF assms(2)] GradientBoosterHandler_event_def BaseHandler_event_def
      set_cur_key_def)

lemma StartObject_Root:
  "DelegatedHandler_event x StartObject (DelegatedHandler_create x) =
     Inr (push_delegate (XGBoostModelHandler []) (DelegatedHandler_create x))"
  by (simp add: DelegatedHandler_event_def DelegatedHandler_create_def RootHandler_event_def
      push_handler_def)

lemma StartObject_learner:
  assumes "delegates st = (''learner'', XGBoostModelHandler v) # ds"
  shows "DelegatedHandler_event x StartObject st = Inr (push_delegate (LearnerHandler []) st)"
  by (simp add: dispatch[OF assms] XGBoostModelHandler_event_def
      XGBoostModelHandler_StartObject_def push_key_handler_def check_cur_key_def
      accept_push_def push_handler_def)

lemma StartObject_gradient_booster:
  assumes "delegates st = (''gradient_booster'', LearnerHandler s) # ds"
  shows "DelegatedHandler_event x StartObject st = Inr (push_delegate GradientBoosterHandler st)"
  by (simp add: dispatch[OF assms] LearnerHandler_event_def
      LearnerHandler_StartObject_def push_key_handler_def check_cur_key_def
      accept_push_def push_handler_def)

lemmas run_simps = Reader_Parse_Cons_Inr Reader_Parse_append_Inr

lemma name_reached:
  assumes "Reader_Parse x
     (StartObject # members a @ Key ''learner'' # StartObject # members al @
      Key ''gradient_booster'' # StartObject # members ag @ [Key ''name''])
     (DelegatedHandler_create x) = Inr st"
  shows "\<exists>ds. delegates st = (''name'', GradientBoosterHandler) # ds"
proof -
  let ?s1 = "push_delegate (XGBoostModelHandler []) (DelegatedHandler_create x)"
  from assms obtain s2 s3 s4 s5 s6 s7 s8
    where 2: "Reader_Parse x (members a) ?s1 = Inr s2"
      and 3: "DelegatedHandler_event x (Key ''learner'') s2 = Inr s3"
      and 4: "DelegatedHandler_event x StartObject s3 = Inr s4"
      and 5: "Reader_Parse x (members al) s4 = Inr s5"
      and 6: "DelegatedHandler_event x (Key ''gradient_booster'') s5 = Inr s6"
      and 7: "DelegatedHandler_event x StartObject s6 = Inr s7"
      and 8: "Reader_Parse x (members ag) s7 = Inr s8"
      and 9: "DelegatedHandler_event x (Key ''name'') s8 = Inr st"
    by (auto simp del: Reader_Parse.simps(2) simp add: run_simps StartObject_Root)
  from members_run_shape[OF 2] obtain c2 v ds2
    where d2: "delegates s2 = (c2, XGBoostModelHandler v) # ds2"
    by (auto simp: shape_Cons erase_eq)
  have d3: "delegates s3 = (''learner'', XGBoostModelHandler v) # ds2"
    using Key_XGBoostModel[OF 3 d2] by simp
  have s4: "s4 = push_delegate (LearnerHandler []) s3"
    using 4 StartObject_learner[OF d3, of x] by simp
  from members_run_shape[OF 5] obtain c5 s ds5
    where d5: "delegates s5 = (c5, LearnerHandler s) # ds5"
    by (auto simp: s4 shape_Cons erase_eq)
  have d6: "delegates s6 = (''gradient_booster'', LearnerHandler s) # ds5"
    using Key_Learner[OF 6 d5] by simp
  have s7: "s7 = push_delegate GradientBoosterHandler s6"
    using 7 StartObject_gradient_booster[OF d6, of x] by simp
  from members_run_shape[OF 8] obtain c8 ds8
    where d8: "delegates s8 = (c8, GradientBoosterHandler) # ds8"
    by (auto simp: s7 shape_Cons erase_eq)
  show ?thesis
    using Key_GradientBooster[OF 9 d8] by simp
qed

lemma name_events:
  "events_of (JObject (a @ (''learner'', JObject (al @ (''gradient_booster'',
       JObject (ag @ (''name'', JString str) # bg)) # bl)) # b)) =
     (StartObject # members a @ Key ''learner'' # StartObject # members al @
      Key ''gradient_booster'' # StartObject # members ag @ [Key ''name'']) @
     String str #
     (members bg @ EndObject (Suc (length ag + length bg)) #
      members bl @ EndObject (Suc (length al + length bl)) #
      members b @ [EndObject (Suc (length a + length b))])"
  by simp

lemma ParseStream_prefix_Inl:
  assumes "Reader_Parse x pre (DelegatedHandler_create x) = Inl err"
  shows "ParseStream x (pre @ post) \<noteq> Inr m"
  using assms by (cases err) (simp_all add: ParseStream_def Reader_Parse_append)

lemma String_unsupported_rejected:
  assumes "delegates st = (''name'', GradientBoosterHandler) # ds" and "str \<noteq> ''gbtree''"
  shows "DelegatedHandler_event x (String str) st =
      Inl (Rejected [''Only GBTree-type boosters are currently supported.''])"
  using assms
  by (simp add: dispatch[OF assms(1)] GradientBoosterHandler_event_def
      GradientBoosterHandler_String_def check_cur_key_def)


text \<open>
  Claim C4, amended. For every document whose gradient-booster object carries a member
  \<^verbatim>\<open>name\<close> with a string other than \<^verbatim>\<open>gbtree\<close>, whatever the other members of the three
  objects around it and their order, the load returns no model. \<open>pre\<close> is the events
  before the string: when all of them were accepted, the string reaches
  \<^verbatim>\<open>GradientBoosterHandler::String\<close>, which rejects it with the line "Only GBTree-type
  boosters are currently supported.", and the load ends in the fatal error of
  \<^verbatim>\<open>ParseStream\<close> with that line logged. Otherwise an earlier event was rejected and the
  load has failed before the name is read.
\<close>

theorem GradientBoosterHandler_String_unsupported_booster:
  assumes "str \<noteq> ''gbtree''"
    and "doc = JObject (a @ (''learner'', JObject (al @ (''gradient_booster'',
       JObject (ag @ (''name'', JString str) # bg)) # bl)) # b)"
    and "pre = StartObject # members a @ Key ''learner'' # StartObject # members al @
      Key ''gradient_booster'' # StartObject # members ag @ [Key ''name'']"
  shows "(\<exists>post. events_of doc = pre @ String str # post) \<and>
    (\<forall>m. ParseStream x (events_of doc) \<noteq> Inr m) \<and>
    GradientBoosterHandler_String ''name'' str =
      (False, [''Only GBTree-type boosters are currently supported.'']) \<and>
    (\<forall>st. Reader_Parse x pre (DelegatedHandler_create x) = Inr st \<longrightarrow>
       DelegatedHandler_event x (String str) st =
         Inl (Rejected [''Only GBTree-type boosters are currently supported.'']) \<and>
       ParseStream x (events_of doc) =
         Inl (Fatal [''Only GBTree-type boosters are currently supported.'', ''Parsing error'',
           ''Provided JSON could not be parsed as XGBoost model'']))"
proof -
  obtain post where ev: "events_of doc = pre @ String str # post"
    unfolding assms(2,3) name_events by blast
  have 1: "GradientBoosterHandler_String ''name'' str =
      (False, [''Only GBTree-type boosters are currently supported.''])"
    using assms(1) by (simp add: GradientBoosterHandler_String_def check_cur_key_def)
  have 2: "DelegatedHandler_event x (String str) st =
         Inl (Rejected [''Only GBTree-type boosters are currently supported.'']) \<and>
       ParseStream x (events_of doc) =
         Inl (Fatal [''Only GBTree-type boosters are currently supported.'', ''Parsing error'',
           ''Provided JSON could not be parsed as XGBoost model''])"
    if r: "Reader_Parse x pre (DelegatedHandler_create x) = Inr st" for st
  proof -
    from name_reached[OF r[unfolded assms(3)]] obtain ds
      where "delegates st = (''name'', GradientBoosterHandler) # ds" ..
    from String_unsupported_rejected[OF this assms(1)]
    have rej: "DelegatedHandler_event x (String str) st =
      Inl (Rejected [''Only GBTree-type boosters are currently supported.''])" .
    from ParseStream_rejected[OF r rej] rej show ?thesis by (simp add: ev)
  qed
  have 3: "ParseStream x (events_of doc) \<noteq> Inr m" for m
  proof (cases "Reader_Parse x pre (DelegatedHandler_create x)")
    case (Inl err)
    then show ?thesis unfolding ev by (rule ParseStream_prefix_Inl)
  next
    case (Inr st)
    from 2[OF this] show ?thesis by simp
  qed
  from ev 1 2 3 show ?thesis by blast
qed

text \<open>The document with the booster \<^verbatim>\<open>gblinear\<close>: its events before the name are accepted.\<close>

theorem GradientBoosterHandler_String_unsupported_booster_witness:
  "''gblinear'' \<noteq> ''gbtree'' \<and>
   Reader_Parse example_externals doc_start (DelegatedHandler_create example_externals) =
     Inr state_start \<and>
   events_of gblinear_json = doc_start @ String ''gblinear'' # [EndObject 1, EndObject 2, EndObject 2] \<and>
   DelegatedHandler_event example_externals (String ''gblinear'') state_start =
     Inl (Rejected [''Only GBTree-type boosters are currently supported.'']) \<and>
   ParseStream example_externals (events_of gblinear_json) =
     Inl (Fatal [''Only GBTree-type boosters are currently supported.'', ''Parsing error'',
       ''Provided JSON could not be parsed as XGBoost model''])"
proof -
  have ne: "''gblinear'' \<noteq> ''gbtree''" by simp
  have doc: "gblinear_json =
      JObject ([(''version'', JArray [JUint 1, JUint 0, JUint 0])] @
        (''learner'', JObject
          ([(''learner_model_param'', JObject
              [(''base_score'', JString ''5''), (''num_class'', JString ''0''),
               (''num_feature'', JString ''4'')])] @
           (''gradient_booster'', JObject ([] @ (''name'', JString ''gblinear'') # [])) # [])) # [])"
    by (simp add: gblinear_json_def)
  have pre: "doc_start =
      StartObject # members [(''version'', JArray [JUint 1, JUint 0, JUint 0])] @
      Key ''learner'' # StartObject #
      members [(''learner_model_param'', JObject
              [(''base_score'', JString ''5''), (''num_class'', JString ''0''),
               (''num_feature'', JString ''4'')])] @
      Key ''gradient_booster'' # StartObject # members [] @ [Key ''name'']"
    by (simp add: doc_start_def)
  have ev: "events_of gblinear_json =
      doc_start @ String ''gblinear'' # [EndObject 1, EndObject 2, EndObject 2]"
    by (simp add: gblinear_json_def doc_start_def)
  from GradientBoosterHandler_String_unsupported_booster[OF ne doc pre, of example_externals]
  have "DelegatedHandler_event example_externals (String ''gblinear'') state_start =
     Inl (Rejected [''Only GBTree-type boosters are currently supported.'']) \<and>
   ParseStream example_externals (events_of gblinear_json) =
     Inl (Fatal [''Only GBTree-type boosters are currently supported.'', ''Parsing error'',
       ''Provided JSON could not be parsed as XGBoost model''])"
    using run_doc_start by blast
  with ne run_doc_start ev show ?thesis by blast
qed

subsection \<open>The transform of the global bias\<close>


















end
